theory Spec2Isabelle
  imports Main "HOL-Library.Word" "HOL-Library.DAList" "HOL-Library.Sublist"
begin

unbundle bit_operations_syntax

section \<open>Package storage: the data model\<close>

text \<open>
  Go's \<open>int64\<close> is a 64-bit word: \<open>+\<close>, \<open>*\<close> and unary minus wrap around, and the
  comparisons of the source are the signed ones (\<open><s\<close>).
\<close>

type_synonym int64 = "64 word"

text \<open>
  Modelled from the spec: the declaration of \<open>OrderStatus\<close> and of its four constants is
  not among the source files. The spec gives the ordinals \<open>Pending=0, Charged=1,
  Fulfilled=2, Cancelled=3\<close>; the source compares a status with \<open>-1\<close>, so the type is an
  integer type and any integer can stand in a stored record.
\<close>

type_synonym OrderStatus = int

definition OrderStatusPending :: OrderStatus where
  "OrderStatusPending = 0"

definition OrderStatusCharged :: OrderStatus where
  "OrderStatusCharged = 1"

definition OrderStatusFulfilled :: OrderStatus where
  "OrderStatusFulfilled = 2"

definition OrderStatusCancelled :: OrderStatus where
  "OrderStatusCancelled = 3"

text \<open>
  Modelled from the spec: the struct declarations \<open>LineItem\<close> and \<open>Order\<close> are not among
  the source files; the fields are the ones the handlers and the store read and write
  (\<open>order.ID\<close>, \<open>order.CustomerEmail\<close>, \<open>order.LineItems\<close>, \<open>order.Status\<close>) and the ones
  the spec lists for a line item.
\<close>

record LineItem =
  Description :: string
  PriceCents :: int64
  Quantity :: int64

record Order =
  ID :: string
  CustomerEmail :: string
  LineItems :: "LineItem list"
  Status :: OrderStatus

text \<open>
  Modelled from the spec: the method \<open>Order.TotalCents\<close> is not among the source files.
  The spec derives the total as the sum of \<open>unitPriceCents * quantity\<close> over the line
  items; on \<open>int64\<close> the loop accumulates with wrap-around.
\<close>

definition TotalCents :: "Order \<Rightarrow> int64" where
  "TotalCents order = fold (\<lambda>item total. total + PriceCents item * Quantity item) (LineItems order) 0"

text \<open>
  Go's \<open>error\<close> values. The two sentinels of \<open>storage/db.go\<close> are compared by identity, so
  they are constructors of their own; \<open>errors_New\<close> is any other error with its message,
  \<open>fmt_Errorf_w\<close> is \<open>fmt.Errorf(prefix + "%w", err)\<close>, which wraps \<open>err\<close>.
\<close>

datatype error =
    ErrOrderNotFound
  | ErrOrderExists
  | errors_New string
  | fmt_Errorf_w string error

fun error_Error :: "error \<Rightarrow> string" where
  "error_Error ErrOrderNotFound = ''order not found''"
| "error_Error ErrOrderExists = ''order already exists''"
| "error_Error (errors_New msg) = msg"
| "error_Error (fmt_Errorf_w pre err) = pre @ error_Error err"

fun errors_Is :: "error \<Rightarrow> error \<Rightarrow> bool" where
  "errors_Is (fmt_Errorf_w pre err) target =
     (fmt_Errorf_w pre err = target \<or> errors_Is err target)"
| "errors_Is err target = (err = target)"

section \<open>Package storage: MemoryInstance\<close>

text \<open>
  \<open>orders map[string]Order\<close> is an association list with distinct keys. Go leaves the
  order in which \<open>range\<close> visits a map unspecified: every visiting order is the order of
  some such list, and the theorems below hold for every list. Each method holds the
  instance's lock from its first statement to its return, so each is one atomic step on
  the instance.
\<close>

record MemoryInstance =
  orders :: "(string, Order) alist"

definition NewMemory :: MemoryInstance where
  "NewMemory = \<lparr>orders = DAList.empty\<rparr>"

definition MemoryInstance_GetOrder :: "string \<Rightarrow> MemoryInstance \<Rightarrow> (error + Order) \<times> MemoryInstance" where
  "MemoryInstance_GetOrder oid i =
     (case DAList.lookup (orders i) oid of
        None \<Rightarrow> (Inl ErrOrderNotFound, i)
      | Some order \<Rightarrow> (Inr order, i))"

text \<open>
  A Go slice that may be \<open>nil\<close>: \<open>None\<close> is the nil slice (\<open>var orders []Order\<close>), and
  \<open>append\<close> to a nil slice gives a slice of one element.
\<close>

definition go_append :: "'a list option \<Rightarrow> 'a \<Rightarrow> 'a list option" where
  "go_append s x = (case s of None \<Rightarrow> Some [x] | Some xs \<Rightarrow> Some (xs @ [x]))"

definition MemoryInstance_GetOrders ::
  "OrderStatus \<Rightarrow> MemoryInstance \<Rightarrow> (error + Order list option) \<times> MemoryInstance" where
  "MemoryInstance_GetOrders status i =
     (Inr (fold (\<lambda>(k, order) acc.
                   if status = - 1 \<or> Status order = status then go_append acc order else acc)
                (DAList.impl_of (orders i)) None), i)"

definition MemoryInstance_SetOrderStatus ::
  "string \<Rightarrow> OrderStatus \<Rightarrow> MemoryInstance \<Rightarrow> error option \<times> MemoryInstance" where
  "MemoryInstance_SetOrderStatus oid status i =
     (case DAList.lookup (orders i) oid of
        None \<Rightarrow> (Some ErrOrderNotFound, i)
      | Some order \<Rightarrow>
          (None, i\<lparr>orders := DAList.update oid (order\<lparr>Status := status\<rparr>) (orders i)\<rparr>))"

text \<open>
  \<open>encoding/hex\<close> of the Go standard library: two digits of \<open>hextable\<close> for each byte,
  the high nibble first.
\<close>

definition hextable :: string where
  "hextable = ''0123456789abcdef''"

definition hex_EncodeToString :: "8 word list \<Rightarrow> string" where
  "hex_EncodeToString src =
     concat (map (\<lambda>v. [hextable ! unat (drop_bit 4 v), hextable ! unat (v AND 15)]) src)"

text \<open>
  \<open>InsertOrder\<close> reads 16 bytes from \<open>crypto/rand\<close> when the incoming id is empty. The
  outcome of that read is an input of the model: \<open>Inl err\<close> when \<open>rand.Read\<close> fails,
  \<open>Inr b\<close> with the bytes it has put in \<open>b\<close> otherwise.
\<close>

type_synonym rand_Read = "error + 8 word list"

definition MemoryInstance_InsertOrder ::
  "rand_Read \<Rightarrow> Order \<Rightarrow> MemoryInstance \<Rightarrow> (error + string) \<times> MemoryInstance" where
  "MemoryInstance_InsertOrder rnd order i =
     (case (if ID order = ''''
            then (case rnd of
                    Inl err \<Rightarrow> Inl err
                  | Inr b \<Rightarrow> Inr (order\<lparr>ID := hex_EncodeToString b\<rparr>))
            else Inr order) of
        Inl err \<Rightarrow> (Inl err, i)
      | Inr order' \<Rightarrow>
          (case DAList.lookup (orders i) (ID order') of
             Some _ \<Rightarrow> (Inl ErrOrderExists, i)
           | None \<Rightarrow> (Inr (ID order'), i\<lparr>orders := DAList.update (ID order') order' (orders i)\<rparr>)))"

section \<open>Package api: the instance and its collaborators\<close>

text \<open>
  The handlers reach the store through the interface \<open>mocks.StorageInstance\<close>, so the
  model takes the four methods as a record of functions on a store state \<open>'s\<close>; each
  returns its result and the store it leaves. \<open>memory\<close> below is the interface filled
  with \<open>MemoryInstance\<close>.
\<close>

record 's StorageInstance =
  GetOrder :: "string \<Rightarrow> 's \<Rightarrow> (error + Order) \<times> 's"
  GetOrders :: "OrderStatus \<Rightarrow> 's \<Rightarrow> (error + Order list option) \<times> 's"
  SetOrderStatus :: "string \<Rightarrow> OrderStatus \<Rightarrow> 's \<Rightarrow> error option \<times> 's"
  InsertOrder :: "rand_Read \<Rightarrow> Order \<Rightarrow> 's \<Rightarrow> (error + string) \<times> 's"

definition memory :: "MemoryInstance StorageInstance" where
  "memory = \<lparr>GetOrder = MemoryInstance_GetOrder, GetOrders = MemoryInstance_GetOrders,
     SetOrderStatus = MemoryInstance_SetOrderStatus, InsertOrder = MemoryInstance_InsertOrder\<rparr>"

text \<open>
  The charge service is an \<open>http.Client\<close>: a \<open>Post\<close> of the arguments either fails in
  transport or comes back with a status code and a body, and may change the service's
  own state \<open>'c\<close>.
\<close>

datatype chargeOrderArgs = chargeOrderArgs string

datatype chargeServiceChargeArgs = chargeServiceChargeArgs (CardToken: string) (AmountCents: int64)

datatype post_result = PostError error | PostResponse nat string

type_synonym 'c http_Client = "chargeServiceChargeArgs \<Rightarrow> 'c \<Rightarrow> post_result \<times> 'c"

record ('s, 'c) api_instance =
  stor :: "'s StorageInstance"
  chargeService :: "'c http_Client"

text \<open>
  What a request runs in: the store, the charge service, and the calls the handlers have
  made to either, oldest first (kept only to state which calls happened, and in which
  order).
\<close>

datatype call =
    CallGetOrder string
  | CallGetOrders OrderStatus
  | CallSetOrderStatus string OrderStatus
  | CallInsertOrder Order
  | CallCharge chargeServiceChargeArgs

record ('s, 'c) world =
  stor_state :: 's
  charge_state :: 'c
  calls :: "call list"

definition stor_GetOrder ::
  "('s, 'c) api_instance \<Rightarrow> string \<Rightarrow> ('s, 'c) world \<Rightarrow> (error + Order) \<times> ('s, 'c) world" where
  "stor_GetOrder i oid w =
     (case GetOrder (stor i) oid (stor_state w) of
        (r, s') \<Rightarrow> (r, w\<lparr>stor_state := s', calls := calls w @ [CallGetOrder oid]\<rparr>))"

definition stor_GetOrders ::
  "('s, 'c) api_instance \<Rightarrow> OrderStatus \<Rightarrow> ('s, 'c) world \<Rightarrow>
     (error + Order list option) \<times> ('s, 'c) world" where
  "stor_GetOrders i status w =
     (case GetOrders (stor i) status (stor_state w) of
        (r, s') \<Rightarrow> (r, w\<lparr>stor_state := s', calls := calls w @ [CallGetOrders status]\<rparr>))"

definition stor_SetOrderStatus ::
  "('s, 'c) api_instance \<Rightarrow> string \<Rightarrow> OrderStatus \<Rightarrow> ('s, 'c) world \<Rightarrow>
     error option \<times> ('s, 'c) world" where
  "stor_SetOrderStatus i oid status w =
     (case SetOrderStatus (stor i) oid status (stor_state w) of
        (r, s') \<Rightarrow> (r, w\<lparr>stor_state := s', calls := calls w @ [CallSetOrderStatus oid status]\<rparr>))"

definition stor_InsertOrder ::
  "('s, 'c) api_instance \<Rightarrow> rand_Read \<Rightarrow> Order \<Rightarrow> ('s, 'c) world \<Rightarrow>
     (error + string) \<times> ('s, 'c) world" where
  "stor_InsertOrder i rnd order w =
     (case InsertOrder (stor i) rnd order (stor_state w) of
        (r, s') \<Rightarrow> (r, w\<lparr>stor_state := s', calls := calls w @ [CallInsertOrder order]\<rparr>))"

section \<open>Package api: responses\<close>

text \<open>
  A response is the HTTP status code and the struct handed to \<open>c.JSON\<close>. \<open>getOrdersRes\<close>
  carries a slice that may be nil (\<open>None\<close>), which JSON renders as \<open>null\<close>.
\<close>

datatype body =
    NoBody
  | errorResponse string string
  | getOrdersRes "Order list option"
  | getOrderRes Order
  | postOrderRes Order
  | chargeOrderRes int64
  | cancelOrderRes string string int64

type_synonym response = "nat \<times> body"

definition StatusOK :: nat where
  "StatusOK = 200"

definition StatusCreated :: nat where
  "StatusCreated = 201"

definition StatusBadRequest :: nat where
  "StatusBadRequest = 400"

definition StatusNotFound :: nat where
  "StatusNotFound = 404"

definition StatusConflict :: nat where
  "StatusConflict = 409"

definition StatusInternalServerError :: nat where
  "StatusInternalServerError = 500"

definition ErrCodeOrderNotFound :: string where
  "ErrCodeOrderNotFound = ''order_not_found''"

definition ErrCodeOrderExists :: string where
  "ErrCodeOrderExists = ''order_already_exists''"

definition ErrCodeInvalidEmail :: string where
  "ErrCodeInvalidEmail = ''invalid_email''"

definition ErrCodeInvalidLineItems :: string where
  "ErrCodeInvalidLineItems = ''invalid_line_items''"

definition ErrCodeInvalidTotal :: string where
  "ErrCodeInvalidTotal = ''invalid_total''"

definition ErrCodeInvalidStatus :: string where
  "ErrCodeInvalidStatus = ''invalid_status''"

definition ErrCodeOrderNotEligible :: string where
  "ErrCodeOrderNotEligible = ''order_not_eligible''"

definition ErrCodeInvalidJSON :: string where
  "ErrCodeInvalidJSON = ''invalid_json''"

definition ErrCodeInternalError :: string where
  "ErrCodeInternalError = ''internal_error''"

definition ErrCodeChargeServiceError :: string where
  "ErrCodeChargeServiceError = ''charge_service_error''"

definition handleError :: "nat \<Rightarrow> string \<Rightarrow> string \<Rightarrow> response" where
  "handleError statusCode code message = (statusCode, errorResponse code message)"

text \<open>
  The JSON object that \<open>encoding/json\<close> writes for a \<open>cancelOrderRes\<close>, key by key: the
  tag \<open>refundedCents,omitempty\<close> leaves the key out when the field is zero.
\<close>

datatype json_value = JSONString string | JSONNumber int64

fun cancelOrderRes_json :: "body \<Rightarrow> (string \<times> json_value) list" where
  "cancelOrderRes_json (cancelOrderRes message orderId refundedCents) =
     [(''message'', JSONString message), (''orderId'', JSONString orderId)] @
     (if refundedCents = 0 then [] else [(''refundedCents'', JSONNumber refundedCents)])"
| "cancelOrderRes_json other = []"

section \<open>Package api: the handlers\<close>

text \<open>\<open>strings.Contains\<close>: some suffix of \<open>s\<close> starts with \<open>substr\<close>.\<close>

fun strings_Contains :: "string \<Rightarrow> string \<Rightarrow> bool" where
  "strings_Contains [] substr = (substr = [])"
| "strings_Contains (c # cs) substr = (prefix substr (c # cs) \<or> strings_Contains cs substr)"

text \<open>The verb \<open>%d\<close> of \<open>fmt\<close> on a status code, which is never negative.\<close>

fun fmt_d :: "nat \<Rightarrow> string" where
  "fmt_d n = (if n < 10 then [''0123456789'' ! n]
              else fmt_d (n div 10) @ [''0123456789'' ! (n mod 10)])"

text \<open>
  \<open>orderFetchMiddleware\<close>: \<open>Inl\<close> is the response written before \<open>c.Abort()\<close>, \<open>Inr\<close> the
  order put in the context for the handler that runs next.
\<close>

definition orderFetchMiddleware ::
  "('s, 'c) api_instance \<Rightarrow> string \<Rightarrow> ('s, 'c) world \<Rightarrow> (response + Order) \<times> ('s, 'c) world" where
  "orderFetchMiddleware i oid w =
     (if oid = '''' then
        (Inl (handleError StatusBadRequest ErrCodeInvalidStatus ''missing order ID''), w)
      else
        (case stor_GetOrder i oid w of
           (Inl err, w') \<Rightarrow>
             (if errors_Is err ErrOrderNotFound then
                (Inl (handleError StatusNotFound ErrCodeOrderNotFound ''not found''), w')
              else
                (Inl (handleError StatusInternalServerError ErrCodeInternalError
                        (''error getting order: '' @ error_Error err)), w'))
         | (Inr order, w') \<Rightarrow> (Inr order, w')))"

definition healthCheck :: "('s, 'c) world \<Rightarrow> response \<times> ('s, 'c) world" where
  "healthCheck w = ((StatusOK, NoBody), w)"

text \<open>\<open>getOrders\<close>: \<open>query\<close> is \<open>c.Query("status")\<close>, empty when the parameter is absent.\<close>

definition getOrders ::
  "('s, 'c) api_instance \<Rightarrow> string \<Rightarrow> ('s, 'c) world \<Rightarrow> response \<times> ('s, 'c) world" where
  "getOrders i query w =
     (case (if query = ''pending'' then Some OrderStatusPending
            else if query = ''charged'' then Some OrderStatusCharged
            else if query = ''fulfilled'' then Some OrderStatusFulfilled
            else if query = ''cancelled'' then Some OrderStatusCancelled
            else if query = '''' then Some (- 1)
            else None) of
        None \<Rightarrow>
          (handleError StatusBadRequest ErrCodeInvalidStatus ''unknown value for status: %v'', w)
      | Some status \<Rightarrow>
          (case stor_GetOrders i status w of
             (Inl err, w') \<Rightarrow>
               (handleError StatusInternalServerError ErrCodeInternalError
                  (''error getting orders: '' @ error_Error err), w')
           | (Inr found, w') \<Rightarrow>
               ((StatusOK, getOrdersRes (case found of None \<Rightarrow> Some [] | Some xs \<Rightarrow> Some xs)), w')))"

definition getOrder :: "Order \<Rightarrow> ('s, 'c) world \<Rightarrow> response \<times> ('s, 'c) world" where
  "getOrder order w = ((StatusOK, getOrderRes order), w)"

text \<open>
  \<open>postOrders\<close>: \<open>decoded\<close> is the outcome of \<open>c.BindJSON(&args)\<close>, the decoding error or
  the customer email and the line items.
\<close>

datatype postOrderArgs = postOrderArgs string "LineItem list"

definition postOrders ::
  "('s, 'c) api_instance \<Rightarrow> rand_Read \<Rightarrow> error + postOrderArgs \<Rightarrow> ('s, 'c) world \<Rightarrow>
     response \<times> ('s, 'c) world" where
  "postOrders i rnd decoded w =
     (case decoded of
        Inl err \<Rightarrow>
          (handleError StatusBadRequest ErrCodeInvalidJSON
             (''error decoding body: '' @ error_Error err), w)
      | Inr (postOrderArgs customerEmail lineItems) \<Rightarrow>
          if \<not> strings_Contains customerEmail ''@'' then
            (handleError StatusBadRequest ErrCodeInvalidEmail ''invalid customerEmail'', w)
          else if length lineItems < 1 then
            (handleError StatusBadRequest ErrCodeInvalidLineItems
               ''an order must contain at least one line item'', w)
          else
            let order = \<lparr>ID = '''', CustomerEmail = customerEmail, LineItems = lineItems,
                           Status = OrderStatusPending\<rparr>
            in if TotalCents order <s 0 then
                 (handleError StatusBadRequest ErrCodeInvalidTotal
                    ''an order's total cannot be less than 0'', w)
               else
                 (case stor_InsertOrder i rnd order w of
                    (Inl err, w') \<Rightarrow>
                      (if errors_Is err ErrOrderExists then
                         (handleError StatusConflict ErrCodeOrderExists ''order already exists'', w')
                       else
                         (handleError StatusInternalServerError ErrCodeInternalError
                            (''error inserting order: '' @ error_Error err), w'))
                  | (Inr new_id, w') \<Rightarrow>
                      ((StatusCreated, postOrderRes (order\<lparr>ID := new_id\<rparr>)), w')))"

text \<open>
  \<open>innerChargeOrder\<close>: the arguments are a string and an \<open>int64\<close>, which \<open>json.Marshal\<close>
  always encodes, so its error branch is never taken.
\<close>

definition innerChargeOrder ::
  "('s, 'c) api_instance \<Rightarrow> chargeServiceChargeArgs \<Rightarrow> ('s, 'c) world \<Rightarrow>
     error option \<times> ('s, 'c) world" where
  "innerChargeOrder i args w =
     (case chargeService i args (charge_state w) of
        (posted, c') \<Rightarrow>
          (case posted of
             PostError err \<Rightarrow> Some (fmt_Errorf_w ''error making charge request: '' err)
           | PostResponse statusCode resp_body \<Rightarrow>
               if statusCode \<noteq> StatusCreated then
                 Some (errors_New (''error charging body: '' @ fmt_d statusCode @ '' '' @ resp_body))
               else None,
           w\<lparr>charge_state := c', calls := calls w @ [CallCharge args]\<rparr>))"

text \<open>
  \<open>chargeOrder\<close>: \<open>decoded\<close> is the outcome of \<open>c.BindJSON(&args)\<close>, \<open>order\<close> the order
  the middleware has put in the context.
\<close>

definition chargeOrder ::
  "('s, 'c) api_instance \<Rightarrow> error + chargeOrderArgs \<Rightarrow> Order \<Rightarrow> ('s, 'c) world \<Rightarrow>
     response \<times> ('s, 'c) world" where
  "chargeOrder i decoded order w =
     (case decoded of
        Inl err \<Rightarrow>
          (handleError StatusBadRequest ErrCodeInvalidJSON
             (''error decoding body: '' @ error_Error err), w)
      | Inr (chargeOrderArgs cardToken) \<Rightarrow>
          if Status order \<noteq> OrderStatusPending then
            (handleError StatusConflict ErrCodeOrderNotEligible ''order ineligible for charging'', w)
          else
            (case innerChargeOrder i (chargeServiceChargeArgs cardToken (TotalCents order)) w of
               (Some err, w') \<Rightarrow>
                 (handleError StatusInternalServerError ErrCodeChargeServiceError (error_Error err), w')
             | (None, w') \<Rightarrow>
                 (case stor_SetOrderStatus i (ID order) OrderStatusCharged w' of
                    (Some err, w'') \<Rightarrow>
                      (handleError StatusInternalServerError ErrCodeInternalError
                         (''error updating order to charged: '' @ error_Error err), w'')
                  | (None, w'') \<Rightarrow> ((StatusOK, chargeOrderRes (TotalCents order)), w''))))"

text \<open>
  \<open>cancelOrder\<close>. The inner \<open>case\<close> is the block under \<open>if order.Status ==
  storage.OrderStatusCharged\<close>: \<open>Inl\<close> is its early return, \<open>Inr\<close> the value of
  \<open>refundedCents\<close> after it.
\<close>

definition cancelOrder ::
  "('s, 'c) api_instance \<Rightarrow> Order \<Rightarrow> ('s, 'c) world \<Rightarrow> response \<times> ('s, 'c) world" where
  "cancelOrder i order w =
     (if Status order \<noteq> OrderStatusPending \<and> Status order \<noteq> OrderStatusCharged then
        (handleError StatusConflict ErrCodeOrderNotEligible
           ''order cannot be cancelled - only pending or charged orders can be cancelled'', w)
      else
        (case (if Status order = OrderStatusCharged then
                 (case innerChargeOrder i (chargeServiceChargeArgs '''' (- TotalCents order)) w of
                    (Some err, w') \<Rightarrow>
                      (Inl (handleError StatusInternalServerError ErrCodeChargeServiceError
                              (''error processing refund: '' @ error_Error err)), w')
                  | (None, w') \<Rightarrow> (Inr (TotalCents order), w'))
               else (Inr 0, w)) of
           (Inl resp, w') \<Rightarrow> (resp, w')
         | (Inr refundedCents, w') \<Rightarrow>
             (case stor_SetOrderStatus i (ID order) OrderStatusCancelled w' of
                (Some err, w'') \<Rightarrow>
                  (handleError StatusInternalServerError ErrCodeInternalError
                     (''error cancelling order: '' @ error_Error err), w'')
              | (None, w'') \<Rightarrow>
                  ((StatusOK, cancelOrderRes ''order cancelled successfully'' (ID order)
                      (if 0 <s refundedCents then refundedCents else 0)), w''))))"

section \<open>Package api: requests\<close>

text \<open>
  The routes of \<open>Handler\<close>. A request to \<open>/orders/:id\<close>, \<open>/orders/:id/charge\<close> or
  \<open>/orders/:id/cancel\<close> runs \<open>orderFetchMiddleware\<close> and then, unless it aborted, the
  handler.
\<close>

datatype request =
    GET_healthz
  | GET_orders string
  | POST_orders rand_Read "error + postOrderArgs"
  | GET_order string
  | POST_charge string "error + chargeOrderArgs"
  | POST_cancel string

fun route_id :: "request \<Rightarrow> string option" where
  "route_id (GET_order oid) = Some oid"
| "route_id (POST_charge oid decoded) = Some oid"
| "route_id (POST_cancel oid) = Some oid"
| "route_id req = None"

fun handler ::
  "('s, 'c) api_instance \<Rightarrow> request \<Rightarrow> Order \<Rightarrow> ('s, 'c) world \<Rightarrow> response \<times> ('s, 'c) world" where
  "handler i (POST_charge oid decoded) order w = chargeOrder i decoded order w"
| "handler i (POST_cancel oid) order w = cancelOrder i order w"
| "handler i req order w = getOrder order w"

fun handler_direct ::
  "('s, 'c) api_instance \<Rightarrow> request \<Rightarrow> ('s, 'c) world \<Rightarrow> response \<times> ('s, 'c) world" where
  "handler_direct i (GET_orders query) w = getOrders i query w"
| "handler_direct i (POST_orders rnd decoded) w = postOrders i rnd decoded w"
| "handler_direct i req w = healthCheck w"

definition ServeHTTP ::
  "('s, 'c) api_instance \<Rightarrow> request \<Rightarrow> ('s, 'c) world \<Rightarrow> response \<times> ('s, 'c) world" where
  "ServeHTTP i req w =
     (case route_id req of
        None \<Rightarrow> handler_direct i req w
      | Some oid \<Rightarrow>
          (case orderFetchMiddleware i oid w of
             (Inl resp, w') \<Rightarrow> (resp, w')
           | (Inr order, w') \<Rightarrow> handler i req order w'))"

section \<open>Sequences of requests\<close>

text \<open>Requests served one after the other: each runs to its response before the next starts.\<close>

fun serve_all ::
  "('s, 'c) api_instance \<Rightarrow> request list \<Rightarrow> ('s, 'c) world \<Rightarrow> response list \<times> ('s, 'c) world" where
  "serve_all i [] w = ([], w)"
| "serve_all i (req # reqs) w =
     (case ServeHTTP i req w of
        (resp, w') \<Rightarrow> (case serve_all i reqs w' of (resps, w'') \<Rightarrow> (resp # resps, w'')))"

text \<open>A sequence of \<open>InsertOrder\<close> calls on one \<open>MemoryInstance\<close>, with the result of each.\<close>

fun InsertOrder_all ::
  "(rand_Read \<times> Order) list \<Rightarrow> MemoryInstance \<Rightarrow> (error + string) list \<times> MemoryInstance" where
  "InsertOrder_all [] i = ([], i)"
| "InsertOrder_all ((rnd, order) # rest) i =
     (case MemoryInstance_InsertOrder rnd order i of
        (r, i') \<Rightarrow> (case InsertOrder_all rest i' of (rs, i'') \<Rightarrow> (r # rs, i'')))"

fun inserted_ids :: "(error + string) list \<Rightarrow> string list" where
  "inserted_ids [] = []"
| "inserted_ids (Inl err # rs) = inserted_ids rs"
| "inserted_ids (Inr oid # rs) = oid # inserted_ids rs"

section \<open>Requests in parallel\<close>

text \<open>
  Gin serves each request on a goroutine of its own. The store's lock makes each of its
  methods atomic, and nothing else orders two requests, so the steps of two requests can
  alternate. The model takes the two halves of a routed request as the steps: the
  middleware (which reads the store) and the handler (which checks the order it was
  handed, charges and writes). Every schedule of these steps is an execution of the
  program; the program has more (a handler can also be overtaken between its charge and
  its write).
\<close>

datatype in_flight =
    Arrived request
  | Fetched request Order
  | Responded response

fun advance ::
  "('s, 'c) api_instance \<Rightarrow> in_flight \<Rightarrow> ('s, 'c) world \<Rightarrow> in_flight \<times> ('s, 'c) world" where
  "advance i (Arrived req) w =
     (case route_id req of
        None \<Rightarrow> (case handler_direct i req w of (resp, w') \<Rightarrow> (Responded resp, w'))
      | Some oid \<Rightarrow>
          (case orderFetchMiddleware i oid w of
             (Inl resp, w') \<Rightarrow> (Responded resp, w')
           | (Inr order, w') \<Rightarrow> (Fetched req order, w')))"
| "advance i (Fetched req order) w =
     (case handler i req order w of (resp, w') \<Rightarrow> (Responded resp, w'))"
| "advance i (Responded resp) w = (Responded resp, w)"

text \<open>\<open>schedule\<close> names, step by step, the request that moves next.\<close>

fun interleave ::
  "('s, 'c) api_instance \<Rightarrow> nat list \<Rightarrow> in_flight list \<Rightarrow> ('s, 'c) world \<Rightarrow>
     in_flight list \<times> ('s, 'c) world" where
  "interleave i [] reqs w = (reqs, w)"
| "interleave i (k # schedule) reqs w =
     (if k < length reqs then
        (case advance i (reqs ! k) w of (r, w') \<Rightarrow> interleave i schedule (reqs[k := r]) w')
      else interleave i schedule reqs w)"

section \<open>Example data\<close>

text \<open>
  The scenario of the spec's testable properties: one order with the line item
  \<open>Widget, 1000 cents, quantity 2\<close>, a second one whose discount brings its total to zero,
  and charge services that accept or decline every request.
\<close>

definition widget_order :: "OrderStatus \<Rightarrow> Order" where
  "widget_order status =
     \<lparr>ID = ''o1'', CustomerEmail = ''ann@example.com'',
      LineItems = [\<lparr>Description = ''Widget'', PriceCents = 1000, Quantity = 2\<rparr>],
      Status = status\<rparr>"

definition free_order :: "OrderStatus \<Rightarrow> Order" where
  "free_order status =
     \<lparr>ID = ''o2'', CustomerEmail = ''bob@example.com'',
      LineItems = [\<lparr>Description = ''Gadget'', PriceCents = 500, Quantity = 1\<rparr>,
                   \<lparr>Description = ''Voucher'', PriceCents = - 500, Quantity = 1\<rparr>],
      Status = status\<rparr>"

definition store_of :: "Order list \<Rightarrow> MemoryInstance" where
  "store_of os = \<lparr>orders = fold (\<lambda>order al. DAList.update (ID order) order al) os DAList.empty\<rparr>"

definition gateway_accepts :: "nat http_Client" where
  "gateway_accepts args n = (PostResponse 201 '''', Suc n)"

definition gateway_declines :: "nat http_Client" where
  "gateway_declines args n = (PostResponse 402 ''declined'', Suc n)"

definition api_of :: "nat http_Client \<Rightarrow> (MemoryInstance, nat) api_instance" where
  "api_of svc = \<lparr>stor = memory, chargeService = svc\<rparr>"

definition world_of :: "MemoryInstance \<Rightarrow> (MemoryInstance, nat) world" where
  "world_of s = \<lparr>stor_state = s, charge_state = 0, calls = []\<rparr>"

text \<open>A store whose writes fail, as the database behind \<open>storage/db.go\<close> does when it is down.\<close>

definition write_fails :: "MemoryInstance StorageInstance" where
  "write_fails = memory\<lparr>SetOrderStatus := \<lambda>oid status s. (Some (errors_New ''database is down''), s)\<rparr>"

section \<open>Facts shared by the proofs\<close>

lemmas status_defs = OrderStatusPending_def OrderStatusCharged_def OrderStatusFulfilled_def
  OrderStatusCancelled_def

lemmas http_defs = StatusOK_def StatusCreated_def StatusBadRequest_def StatusNotFound_def
  StatusConflict_def StatusInternalServerError_def

lemma fold_add_sum_list:
  "fold (\<lambda>item total. total + f item) xs (a :: int64) = a + sum_list (map f xs)"
  by (induction xs arbitrary: a) (simp_all add: add.assoc)

lemma TotalCents_sum_list:
  "TotalCents order = (\<Sum>item\<leftarrow>LineItems order. PriceCents item * Quantity item)"
  by (simp add: TotalCents_def fold_add_sum_list)

lemma strings_Contains_char: "strings_Contains s [c] \<longleftrightarrow> c \<in> set s"
  by (induction s) auto

lemma innerChargeOrder_world:
  "innerChargeOrder i args w = (r, w') \<Longrightarrow>
     stor_state w' = stor_state w \<and> calls w' = calls w @ [CallCharge args]"
  by (auto simp: innerChargeOrder_def split: prod.splits)

lemma cancelOrder_Charged:
  "Status order = OrderStatusCharged \<Longrightarrow>
   cancelOrder i order w =
     (case innerChargeOrder i (chargeServiceChargeArgs '''' (- TotalCents order)) w of
        (Some err, w1) \<Rightarrow>
          ((StatusInternalServerError,
            errorResponse ErrCodeChargeServiceError (''error processing refund: '' @ error_Error err)), w1)
      | (None, w1) \<Rightarrow>
          (case SetOrderStatus (stor i) (ID order) OrderStatusCancelled (stor_state w1) of
             (Some err, s2) \<Rightarrow>
               ((StatusInternalServerError,
                 errorResponse ErrCodeInternalError (''error cancelling order: '' @ error_Error err)),
                w1\<lparr>stor_state := s2,
                    calls := calls w1 @ [CallSetOrderStatus (ID order) OrderStatusCancelled]\<rparr>)
           | (None, s2) \<Rightarrow>
               ((StatusOK, cancelOrderRes ''order cancelled successfully'' (ID order)
                   (if 0 <s TotalCents order then TotalCents order else 0)),
                w1\<lparr>stor_state := s2,
                    calls := calls w1 @ [CallSetOrderStatus (ID order) OrderStatusCancelled]\<rparr>)))"
  by (simp add: cancelOrder_def handleError_def stor_SetOrderStatus_def status_defs
      split: prod.splits option.splits)

lemma cancelOrder_Pending:
  "Status order = OrderStatusPending \<Longrightarrow>
   cancelOrder i order w =
     (case SetOrderStatus (stor i) (ID order) OrderStatusCancelled (stor_state w) of
        (Some err, s2) \<Rightarrow>
          ((StatusInternalServerError,
            errorResponse ErrCodeInternalError (''error cancelling order: '' @ error_Error err)),
           w\<lparr>stor_state := s2,
               calls := calls w @ [CallSetOrderStatus (ID order) OrderStatusCancelled]\<rparr>)
      | (None, s2) \<Rightarrow>
          ((StatusOK, cancelOrderRes ''order cancelled successfully'' (ID order) 0),
           w\<lparr>stor_state := s2,
               calls := calls w @ [CallSetOrderStatus (ID order) OrderStatusCancelled]\<rparr>))"
  by (simp add: cancelOrder_def handleError_def stor_SetOrderStatus_def status_defs
      split: prod.splits option.splits)

lemma cancelOrder_other:
  "Status order \<noteq> OrderStatusPending \<Longrightarrow> Status order \<noteq> OrderStatusCharged \<Longrightarrow>
   cancelOrder i order w =
     ((StatusConflict, errorResponse ErrCodeOrderNotEligible
        ''order cannot be cancelled - only pending or charged orders can be cancelled''), w)"
  by (simp add: cancelOrder_def handleError_def)

subsection \<open>The example data\<close>

lemma total_widget: "TotalCents (widget_order status) = 2000"
  by (simp add: TotalCents_def widget_order_def)

lemma total_free: "TotalCents (free_order status) = 0"
  by (simp add: TotalCents_def free_order_def)

lemma example_ids: "ID (widget_order status) = ''o1''" "ID (free_order status) = ''o2''"
  by (simp_all add: widget_order_def free_order_def)

lemma example_status: "Status (widget_order status) = status" "Status (free_order status) = status"
  by (simp_all add: widget_order_def free_order_def)

lemma lookup_store_of_single: "DAList.lookup (orders (store_of [order])) (ID order) = Some order"
  by (simp add: store_of_def)

lemma SetOrderStatus_store_of:
  "MemoryInstance_SetOrderStatus ''o1'' status (store_of [widget_order old]) =
     (None, store_of [widget_order status])"
  "MemoryInstance_SetOrderStatus ''o2'' status (store_of [free_order old]) =
     (None, store_of [free_order status])"
  by (simp_all add: MemoryInstance_SetOrderStatus_def store_of_def widget_order_def free_order_def
      DAList.lookup_update)

lemma declined:
  "innerChargeOrder (api_of gateway_declines) args (world_of s) =
     (Some (errors_New ''error charging body: 402 declined''),
      \<lparr>stor_state = s, charge_state = 1, calls = [CallCharge args]\<rparr>)"
  by (simp add: innerChargeOrder_def api_of_def gateway_declines_def world_of_def StatusCreated_def)

lemma accepted:
  "innerChargeOrder \<lparr>stor = st, chargeService = gateway_accepts\<rparr> args (world_of s) =
     (None, \<lparr>stor_state = s, charge_state = 1, calls = [CallCharge args]\<rparr>)"
  by (simp add: innerChargeOrder_def gateway_accepts_def world_of_def StatusCreated_def)

section \<open>The store: SetOrderStatus\<close>

text \<open>
  C8. \<open>SetOrderStatus\<close> on an id the store does not hold returns \<open>ErrOrderNotFound\<close> and the
  same store. On an id it holds, whatever the old and the new status are, it succeeds;
  afterwards the record under that id is the old one with only its status replaced (id,
  customer email and line items as before), and the record under every other id is the
  one that was there.
\<close>

theorem SetOrderStatus_frame:
  "(DAList.lookup (orders i) oid = None \<longrightarrow>
      MemoryInstance_SetOrderStatus oid status i = (Some ErrOrderNotFound, i)) \<and>
   (DAList.lookup (orders i) oid = Some order \<longrightarrow>
      (\<exists>i' stored. MemoryInstance_SetOrderStatus oid status i = (None, i') \<and>
         DAList.lookup (orders i') oid = Some stored \<and>
         Status stored = status \<and>
         ID stored = ID order \<and>
         CustomerEmail stored = CustomerEmail order \<and>
         LineItems stored = LineItems order \<and>
         (\<forall>other. other \<noteq> oid \<longrightarrow>
            DAList.lookup (orders i') other = DAList.lookup (orders i) other)))"
proof (intro conjI impI)
  assume "DAList.lookup (orders i) oid = None"
  then show "MemoryInstance_SetOrderStatus oid status i = (Some ErrOrderNotFound, i)"
    by (simp add: MemoryInstance_SetOrderStatus_def)
next
  assume held: "DAList.lookup (orders i) oid = Some order"
  let ?i' = "i\<lparr>orders := DAList.update oid (order\<lparr>Status := status\<rparr>) (orders i)\<rparr>"
  from held have "MemoryInstance_SetOrderStatus oid status i = (None, ?i')"
    by (simp add: MemoryInstance_SetOrderStatus_def)
  moreover have "DAList.lookup (orders ?i') oid = Some (order\<lparr>Status := status\<rparr>)"
    by simp
  moreover have "\<forall>other. other \<noteq> oid \<longrightarrow>
      DAList.lookup (orders ?i') other = DAList.lookup (orders i) other"
    by (simp add: DAList.lookup_update)
  ultimately show "\<exists>i' stored. MemoryInstance_SetOrderStatus oid status i = (None, i') \<and>
         DAList.lookup (orders i') oid = Some stored \<and>
         Status stored = status \<and>
         ID stored = ID order \<and>
         CustomerEmail stored = CustomerEmail order \<and>
         LineItems stored = LineItems order \<and>
         (\<forall>other. other \<noteq> oid \<longrightarrow>
            DAList.lookup (orders i') other = DAList.lookup (orders i) other)"
    by (intro exI [of _ ?i'] exI [of _ "order\<lparr>Status := status\<rparr>"]) simp
qed

text \<open>
  At a store of two orders: an unknown id changes nothing, and a charged order is set back
  to pending (no edge of the state machine) while the other order stays as it was.
\<close>

theorem SetOrderStatus_frame_witness:
  "DAList.lookup (orders (store_of [widget_order OrderStatusCharged, free_order OrderStatusPending])) ''zz'' = None \<and>
   MemoryInstance_SetOrderStatus ''zz'' OrderStatusCancelled
     (store_of [widget_order OrderStatusCharged, free_order OrderStatusPending]) =
     (Some ErrOrderNotFound, store_of [widget_order OrderStatusCharged, free_order OrderStatusPending]) \<and>
   DAList.lookup (orders (store_of [widget_order OrderStatusCharged, free_order OrderStatusPending])) ''o1'' =
     Some (widget_order OrderStatusCharged) \<and>
   fst (MemoryInstance_SetOrderStatus ''o1'' OrderStatusPending
     (store_of [widget_order OrderStatusCharged, free_order OrderStatusPending])) = None \<and>
   DAList.lookup (orders (snd (MemoryInstance_SetOrderStatus ''o1'' OrderStatusPending
     (store_of [widget_order OrderStatusCharged, free_order OrderStatusPending])))) ''o1'' =
     Some (widget_order OrderStatusPending) \<and>
   DAList.lookup (orders (snd (MemoryInstance_SetOrderStatus ''o1'' OrderStatusPending
     (store_of [widget_order OrderStatusCharged, free_order OrderStatusPending])))) ''o2'' =
     Some (free_order OrderStatusPending)"
  using SetOrderStatus_frame [of "store_of [widget_order OrderStatusCharged, free_order OrderStatusPending]"
      "''zz''" OrderStatusCancelled "widget_order OrderStatusCharged"]
    SetOrderStatus_frame [of "store_of [widget_order OrderStatusCharged, free_order OrderStatusPending]"
      "''o1''" OrderStatusPending "widget_order OrderStatusCharged"]
  by (simp add: store_of_def widget_order_def free_order_def DAList.lookup_update
      MemoryInstance_SetOrderStatus_def)

section \<open>The controller: chargeOrder\<close>

text \<open>
  C3. \<open>chargeOrder\<close> on a request whose body decodes, for the order the middleware
  fetched. When the status is not \<open>Pending\<close> the answer is 409 \<open>order_not_eligible\<close> and
  nothing is called or changed. When it is \<open>Pending\<close> the charge service is called once
  with the card token and the order's total: if that call fails the answer is 500
  \<open>charge_service_error\<close> with the call's own message and the store is untouched; if it
  succeeds, \<open>SetOrderStatus(id, Charged)\<close> is called, and the answer is 500
  \<open>internal_error\<close> when that fails and 200 with \<open>chargedCents\<close> equal to the total when
  it succeeds.
\<close>

theorem chargeOrder_outcomes:
  "(Status order \<noteq> OrderStatusPending \<longrightarrow>
      chargeOrder i (Inr (chargeOrderArgs tok)) order w =
        ((StatusConflict, errorResponse ErrCodeOrderNotEligible ''order ineligible for charging''), w)) \<and>
   (Status order = OrderStatusPending \<and>
    innerChargeOrder i (chargeServiceChargeArgs tok (TotalCents order)) w = (Some err, w1) \<longrightarrow>
      chargeOrder i (Inr (chargeOrderArgs tok)) order w =
        ((StatusInternalServerError, errorResponse ErrCodeChargeServiceError (error_Error err)), w1) \<and>
      stor_state w1 = stor_state w \<and>
      calls w1 = calls w @ [CallCharge (chargeServiceChargeArgs tok (TotalCents order))]) \<and>
   (Status order = OrderStatusPending \<and>
    innerChargeOrder i (chargeServiceChargeArgs tok (TotalCents order)) w = (None, w2) \<and>
    SetOrderStatus (stor i) (ID order) OrderStatusCharged (stor_state w2) = (Some err', s3) \<longrightarrow>
      chargeOrder i (Inr (chargeOrderArgs tok)) order w =
        ((StatusInternalServerError,
          errorResponse ErrCodeInternalError (''error updating order to charged: '' @ error_Error err')),
         w2\<lparr>stor_state := s3, calls := calls w2 @ [CallSetOrderStatus (ID order) OrderStatusCharged]\<rparr>)) \<and>
   (Status order = OrderStatusPending \<and>
    innerChargeOrder i (chargeServiceChargeArgs tok (TotalCents order)) w = (None, w2) \<and>
    SetOrderStatus (stor i) (ID order) OrderStatusCharged (stor_state w2) = (None, s4) \<longrightarrow>
      chargeOrder i (Inr (chargeOrderArgs tok)) order w =
        ((StatusOK, chargeOrderRes (TotalCents order)),
         w2\<lparr>stor_state := s4, calls := calls w2 @ [CallSetOrderStatus (ID order) OrderStatusCharged]\<rparr>) \<and>
      calls w2 = calls w @ [CallCharge (chargeServiceChargeArgs tok (TotalCents order))])"
proof (intro conjI impI)
  assume "Status order \<noteq> OrderStatusPending"
  then show "chargeOrder i (Inr (chargeOrderArgs tok)) order w =
        ((StatusConflict, errorResponse ErrCodeOrderNotEligible ''order ineligible for charging''), w)"
    by (simp add: chargeOrder_def handleError_def)
next
  assume a: "Status order = OrderStatusPending \<and>
    innerChargeOrder i (chargeServiceChargeArgs tok (TotalCents order)) w = (Some err, w1)"
  then show "chargeOrder i (Inr (chargeOrderArgs tok)) order w =
        ((StatusInternalServerError, errorResponse ErrCodeChargeServiceError (error_Error err)), w1)"
    by (simp add: chargeOrder_def handleError_def)
  from a show "stor_state w1 = stor_state w"
    using innerChargeOrder_world by blast
  from a show "calls w1 = calls w @ [CallCharge (chargeServiceChargeArgs tok (TotalCents order))]"
    using innerChargeOrder_world by blast
next
  assume "Status order = OrderStatusPending \<and>
    innerChargeOrder i (chargeServiceChargeArgs tok (TotalCents order)) w = (None, w2) \<and>
    SetOrderStatus (stor i) (ID order) OrderStatusCharged (stor_state w2) = (Some err', s3)"
  then show "chargeOrder i (Inr (chargeOrderArgs tok)) order w =
        ((StatusInternalServerError,
          errorResponse ErrCodeInternalError (''error updating order to charged: '' @ error_Error err')),
         w2\<lparr>stor_state := s3, calls := calls w2 @ [CallSetOrderStatus (ID order) OrderStatusCharged]\<rparr>)"
    by (simp add: chargeOrder_def handleError_def stor_SetOrderStatus_def)
next
  assume a: "Status order = OrderStatusPending \<and>
    innerChargeOrder i (chargeServiceChargeArgs tok (TotalCents order)) w = (None, w2) \<and>
    SetOrderStatus (stor i) (ID order) OrderStatusCharged (stor_state w2) = (None, s4)"
  then show "chargeOrder i (Inr (chargeOrderArgs tok)) order w =
        ((StatusOK, chargeOrderRes (TotalCents order)),
         w2\<lparr>stor_state := s4, calls := calls w2 @ [CallSetOrderStatus (ID order) OrderStatusCharged]\<rparr>)"
    by (simp add: chargeOrder_def handleError_def stor_SetOrderStatus_def)
  from a show "calls w2 = calls w @ [CallCharge (chargeServiceChargeArgs tok (TotalCents order))]"
    using innerChargeOrder_world by blast
qed

text \<open>
  The four outcomes at the widget order: already charged; pending with a declining
  service; pending with a store whose write fails; pending with both succeeding.
\<close>

theorem chargeOrder_outcomes_witness:
  "Status (widget_order OrderStatusCharged) \<noteq> OrderStatusPending \<and>
   chargeOrder (api_of gateway_accepts) (Inr (chargeOrderArgs ''tok'')) (widget_order OrderStatusCharged)
     (world_of (store_of [widget_order OrderStatusCharged])) =
     ((409, errorResponse ''order_not_eligible'' ''order ineligible for charging''),
      world_of (store_of [widget_order OrderStatusCharged])) \<and>
   Status (widget_order OrderStatusPending) = OrderStatusPending \<and>
   chargeOrder (api_of gateway_declines) (Inr (chargeOrderArgs ''tok'')) (widget_order OrderStatusPending)
     (world_of (store_of [widget_order OrderStatusPending])) =
     ((500, errorResponse ''charge_service_error'' ''error charging body: 402 declined''),
      \<lparr>stor_state = store_of [widget_order OrderStatusPending], charge_state = 1,
         calls = [CallCharge (chargeServiceChargeArgs ''tok'' 2000)]\<rparr>) \<and>
   chargeOrder \<lparr>stor = write_fails, chargeService = gateway_accepts\<rparr> (Inr (chargeOrderArgs ''tok''))
     (widget_order OrderStatusPending) (world_of (store_of [widget_order OrderStatusPending])) =
     ((500, errorResponse ''internal_error'' ''error updating order to charged: database is down''),
      \<lparr>stor_state = store_of [widget_order OrderStatusPending], charge_state = 1,
         calls = [CallCharge (chargeServiceChargeArgs ''tok'' 2000),
                  CallSetOrderStatus ''o1'' OrderStatusCharged]\<rparr>) \<and>
   chargeOrder (api_of gateway_accepts) (Inr (chargeOrderArgs ''tok'')) (widget_order OrderStatusPending)
     (world_of (store_of [widget_order OrderStatusPending])) =
     ((200, chargeOrderRes 2000),
      \<lparr>stor_state = store_of [widget_order OrderStatusCharged], charge_state = 1,
         calls = [CallCharge (chargeServiceChargeArgs ''tok'' 2000),
                  CallSetOrderStatus ''o1'' OrderStatusCharged]\<rparr>)"
proof -
  let ?w = "world_of (store_of [widget_order OrderStatusPending])"
  let ?w1 = "\<lparr>stor_state = store_of [widget_order OrderStatusPending], charge_state = 1::nat,
         calls = [CallCharge (chargeServiceChargeArgs ''tok'' 2000)]\<rparr>"
  have d: "innerChargeOrder (api_of gateway_declines)
      (chargeServiceChargeArgs ''tok'' (TotalCents (widget_order OrderStatusPending))) ?w =
      (Some (errors_New ''error charging body: 402 declined''), ?w1)"
    by (simp add: declined total_widget)
  have a: "innerChargeOrder (api_of gateway_accepts)
      (chargeServiceChargeArgs ''tok'' (TotalCents (widget_order OrderStatusPending))) ?w = (None, ?w1)"
    by (simp add: accepted total_widget api_of_def)
  have a': "innerChargeOrder \<lparr>stor = write_fails, chargeService = gateway_accepts\<rparr>
      (chargeServiceChargeArgs ''tok'' (TotalCents (widget_order OrderStatusPending))) ?w = (None, ?w1)"
    by (simp add: accepted total_widget)
  have f: "SetOrderStatus (stor \<lparr>stor = write_fails, chargeService = gateway_accepts\<rparr>)
      (ID (widget_order OrderStatusPending)) OrderStatusCharged (stor_state ?w1) =
      (Some (errors_New ''database is down''), store_of [widget_order OrderStatusPending])"
    by (simp add: write_fails_def)
  have s: "SetOrderStatus (stor (api_of gateway_accepts))
      (ID (widget_order OrderStatusPending)) OrderStatusCharged (stor_state ?w1) =
      (None, store_of [widget_order OrderStatusCharged])"
    by (simp add: api_of_def memory_def MemoryInstance_SetOrderStatus_def store_of_def
        widget_order_def DAList.lookup_update)
  have p: "Status (widget_order OrderStatusPending) = OrderStatusPending"
      "Status (widget_order OrderStatusCharged) \<noteq> OrderStatusPending"
    by (simp_all add: widget_order_def status_defs)
  have c1: "chargeOrder (api_of gateway_accepts) (Inr (chargeOrderArgs ''tok''))
      (widget_order OrderStatusCharged) (world_of (store_of [widget_order OrderStatusCharged])) =
      ((StatusConflict, errorResponse ErrCodeOrderNotEligible ''order ineligible for charging''),
       world_of (store_of [widget_order OrderStatusCharged]))"
    by (rule chargeOrder_outcomes [THEN conjunct1, THEN mp, OF p(2)])
  have c2: "chargeOrder (api_of gateway_declines) (Inr (chargeOrderArgs ''tok''))
      (widget_order OrderStatusPending) ?w =
      ((StatusInternalServerError, errorResponse ErrCodeChargeServiceError
          (error_Error (errors_New ''error charging body: 402 declined''))), ?w1)"
    by (rule chargeOrder_outcomes [THEN conjunct2, THEN conjunct1, THEN mp, OF conjI [OF p(1) d],
          THEN conjunct1])
  have c3: "chargeOrder \<lparr>stor = write_fails, chargeService = gateway_accepts\<rparr>
      (Inr (chargeOrderArgs ''tok'')) (widget_order OrderStatusPending) ?w =
      ((StatusInternalServerError, errorResponse ErrCodeInternalError
          (''error updating order to charged: '' @ error_Error (errors_New ''database is down''))),
       ?w1\<lparr>stor_state := store_of [widget_order OrderStatusPending],
            calls := calls ?w1 @
              [CallSetOrderStatus (ID (widget_order OrderStatusPending)) OrderStatusCharged]\<rparr>)"
    by (rule chargeOrder_outcomes [THEN conjunct2, THEN conjunct2, THEN conjunct1, THEN mp,
          OF conjI [OF p(1) conjI [OF a' f]]])
  have c4: "chargeOrder (api_of gateway_accepts) (Inr (chargeOrderArgs ''tok''))
      (widget_order OrderStatusPending) ?w =
      ((StatusOK, chargeOrderRes (TotalCents (widget_order OrderStatusPending))),
       ?w1\<lparr>stor_state := store_of [widget_order OrderStatusCharged],
            calls := calls ?w1 @
              [CallSetOrderStatus (ID (widget_order OrderStatusPending)) OrderStatusCharged]\<rparr>)"
    by (rule chargeOrder_outcomes [THEN conjunct2, THEN conjunct2, THEN conjunct2, THEN mp,
          OF conjI [OF p(1) conjI [OF a s]], THEN conjunct1])
  have ident: "ID (widget_order OrderStatusPending) = ''o1''"
    by (simp add: widget_order_def)
  show ?thesis
    unfolding c1 c2 c3 c4
    by (simp add: p http_defs total_widget ident ErrCodeOrderNotEligible_def
        ErrCodeChargeServiceError_def ErrCodeInternalError_def)
qed

section \<open>The controller: cancelOrder\<close>

text \<open>
  C2. \<open>cancelOrder\<close> on an order whose status is \<open>Charged\<close> first calls the charge service
  with an empty card token and the negated total; a call to \<open>SetOrderStatus\<close>, if there is
  one, comes after it. When that refund call fails, the answer is 500
  \<open>charge_service_error\<close>, the store is the one the request started with and no status
  write has been made.
\<close>

theorem cancelOrder_refund_gating:
  "(Status order = OrderStatusCharged \<longrightarrow>
      calls (snd (cancelOrder i order w)) =
        calls w @ [CallCharge (chargeServiceChargeArgs '''' (- TotalCents order))] \<or>
      calls (snd (cancelOrder i order w)) =
        calls w @ [CallCharge (chargeServiceChargeArgs '''' (- TotalCents order)),
                   CallSetOrderStatus (ID order) OrderStatusCancelled]) \<and>
   (Status order = OrderStatusCharged \<and>
    innerChargeOrder i (chargeServiceChargeArgs '''' (- TotalCents order)) w = (Some err, w1) \<longrightarrow>
      cancelOrder i order w =
        ((StatusInternalServerError,
          errorResponse ErrCodeChargeServiceError (''error processing refund: '' @ error_Error err)), w1) \<and>
      stor_state w1 = stor_state w \<and>
      calls w1 = calls w @ [CallCharge (chargeServiceChargeArgs '''' (- TotalCents order))])"
proof (intro conjI impI)
  assume c: "Status order = OrderStatusCharged"
  obtain r w1 where r: "innerChargeOrder i (chargeServiceChargeArgs '''' (- TotalCents order)) w = (r, w1)"
    by (cases "innerChargeOrder i (chargeServiceChargeArgs '''' (- TotalCents order)) w")
  from innerChargeOrder_world [OF r]
  have w1: "calls w1 = calls w @ [CallCharge (chargeServiceChargeArgs '''' (- TotalCents order))]"
    by simp
  show "calls (snd (cancelOrder i order w)) =
        calls w @ [CallCharge (chargeServiceChargeArgs '''' (- TotalCents order))] \<or>
      calls (snd (cancelOrder i order w)) =
        calls w @ [CallCharge (chargeServiceChargeArgs '''' (- TotalCents order)),
                   CallSetOrderStatus (ID order) OrderStatusCancelled]"
    by (simp add: cancelOrder_Charged [OF c] r w1 split: option.splits prod.splits)
next
  assume a: "Status order = OrderStatusCharged \<and>
    innerChargeOrder i (chargeServiceChargeArgs '''' (- TotalCents order)) w = (Some err, w1)"
  then show "cancelOrder i order w =
        ((StatusInternalServerError,
          errorResponse ErrCodeChargeServiceError (''error processing refund: '' @ error_Error err)), w1)"
    by (simp add: cancelOrder_Charged)
  from a show "stor_state w1 = stor_state w"
    using innerChargeOrder_world by blast
  from a show "calls w1 = calls w @ [CallCharge (chargeServiceChargeArgs '''' (- TotalCents order))]"
    using innerChargeOrder_world by blast
qed

text \<open>
  With a service that declines, the charged widget order is still \<open>Charged\<close> in the store
  after the request.
\<close>

theorem cancelOrder_refund_gating_witness:
  "Status (widget_order OrderStatusCharged) = OrderStatusCharged \<and>
   innerChargeOrder (api_of gateway_declines) (chargeServiceChargeArgs '''' (- 2000))
     (world_of (store_of [widget_order OrderStatusCharged])) =
     (Some (errors_New ''error charging body: 402 declined''),
      \<lparr>stor_state = store_of [widget_order OrderStatusCharged], charge_state = 1,
         calls = [CallCharge (chargeServiceChargeArgs '''' (- 2000))]\<rparr>) \<and>
   fst (cancelOrder (api_of gateway_declines) (widget_order OrderStatusCharged)
     (world_of (store_of [widget_order OrderStatusCharged]))) =
     (500, errorResponse ''charge_service_error''
        ''error processing refund: error charging body: 402 declined'') \<and>
   DAList.lookup (orders (stor_state (snd (cancelOrder (api_of gateway_declines)
     (widget_order OrderStatusCharged) (world_of (store_of [widget_order OrderStatusCharged])))))) ''o1'' =
     Some (widget_order OrderStatusCharged)"
  using cancelOrder_refund_gating [of "widget_order OrderStatusCharged" "api_of gateway_declines"
      "world_of (store_of [widget_order OrderStatusCharged])"
      "errors_New ''error charging body: 402 declined''"
      "\<lparr>stor_state = store_of [widget_order OrderStatusCharged], charge_state = 1,
         calls = [CallCharge (chargeServiceChargeArgs '''' (- 2000))]\<rparr>"]
  by (simp add: total_widget declined http_defs ErrCodeChargeServiceError_def)
    (simp add: widget_order_def store_of_def DAList.lookup_update)

text \<open>
  C9. \<open>cancelOrder\<close> on a \<open>Charged\<close> order whose refund call succeeds and whose
  \<open>SetOrderStatus(id, Cancelled)\<close> fails: the answer is 500 \<open>internal_error\<close>, the store is
  the one the failed write left, and the calls made are exactly the refund and the failed
  write, so the refund stays issued and nothing compensates for it.
\<close>

theorem cancelOrder_refund_then_failed_write:
  "Status order = OrderStatusCharged \<and>
   innerChargeOrder i (chargeServiceChargeArgs '''' (- TotalCents order)) w = (None, w1) \<and>
   SetOrderStatus (stor i) (ID order) OrderStatusCancelled (stor_state w) = (Some err, s2) \<longrightarrow>
     fst (cancelOrder i order w) =
       (StatusInternalServerError,
        errorResponse ErrCodeInternalError (''error cancelling order: '' @ error_Error err)) \<and>
     stor_state (snd (cancelOrder i order w)) = s2 \<and>
     charge_state (snd (cancelOrder i order w)) = charge_state w1 \<and>
     calls (snd (cancelOrder i order w)) =
       calls w @ [CallCharge (chargeServiceChargeArgs '''' (- TotalCents order)),
                  CallSetOrderStatus (ID order) OrderStatusCancelled]"
proof (intro impI)
  assume a: "Status order = OrderStatusCharged \<and>
   innerChargeOrder i (chargeServiceChargeArgs '''' (- TotalCents order)) w = (None, w1) \<and>
   SetOrderStatus (stor i) (ID order) OrderStatusCancelled (stor_state w) = (Some err, s2)"
  then have w1: "stor_state w1 = stor_state w"
      "calls w1 = calls w @ [CallCharge (chargeServiceChargeArgs '''' (- TotalCents order))]"
    using innerChargeOrder_world by blast+
  from a w1 show "fst (cancelOrder i order w) =
       (StatusInternalServerError,
        errorResponse ErrCodeInternalError (''error cancelling order: '' @ error_Error err)) \<and>
     stor_state (snd (cancelOrder i order w)) = s2 \<and>
     charge_state (snd (cancelOrder i order w)) = charge_state w1 \<and>
     calls (snd (cancelOrder i order w)) =
       calls w @ [CallCharge (chargeServiceChargeArgs '''' (- TotalCents order)),
                  CallSetOrderStatus (ID order) OrderStatusCancelled]"
    by (simp add: cancelOrder_Charged)
qed

text \<open>
  With a store whose writes fail and leave it unchanged, the widget order has been
  refunded and is still \<open>Charged\<close>.
\<close>

theorem cancelOrder_refund_then_failed_write_witness:
  "Status (widget_order OrderStatusCharged) = OrderStatusCharged \<and>
   innerChargeOrder \<lparr>stor = write_fails, chargeService = gateway_accepts\<rparr>
     (chargeServiceChargeArgs '''' (- 2000)) (world_of (store_of [widget_order OrderStatusCharged])) =
     (None, \<lparr>stor_state = store_of [widget_order OrderStatusCharged], charge_state = 1,
              calls = [CallCharge (chargeServiceChargeArgs '''' (- 2000))]\<rparr>) \<and>
   SetOrderStatus write_fails ''o1'' OrderStatusCancelled (store_of [widget_order OrderStatusCharged]) =
     (Some (errors_New ''database is down''), store_of [widget_order OrderStatusCharged]) \<and>
   fst (cancelOrder \<lparr>stor = write_fails, chargeService = gateway_accepts\<rparr>
     (widget_order OrderStatusCharged) (world_of (store_of [widget_order OrderStatusCharged]))) =
     (500, errorResponse ''internal_error'' ''error cancelling order: database is down'') \<and>
   DAList.lookup (orders (stor_state (snd (cancelOrder \<lparr>stor = write_fails, chargeService = gateway_accepts\<rparr>
     (widget_order OrderStatusCharged) (world_of (store_of [widget_order OrderStatusCharged])))))) ''o1'' =
     Some (widget_order OrderStatusCharged) \<and>
   calls (snd (cancelOrder \<lparr>stor = write_fails, chargeService = gateway_accepts\<rparr>
     (widget_order OrderStatusCharged) (world_of (store_of [widget_order OrderStatusCharged])))) =
     [CallCharge (chargeServiceChargeArgs '''' (- 2000)), CallSetOrderStatus ''o1'' OrderStatusCancelled]"
proof -
  let ?i = "\<lparr>stor = write_fails, chargeService = gateway_accepts\<rparr>"
  let ?o = "widget_order OrderStatusCharged"
  let ?w = "world_of (store_of [?o])"
  let ?w1 = "\<lparr>stor_state = store_of [?o], charge_state = 1::nat,
              calls = [CallCharge (chargeServiceChargeArgs '''' (- 2000))]\<rparr>"
  have p: "Status ?o = OrderStatusCharged"
    by (rule example_status)
  have a: "innerChargeOrder ?i (chargeServiceChargeArgs '''' (- TotalCents ?o)) ?w = (None, ?w1)"
    by (simp add: accepted total_widget)
  have f: "SetOrderStatus (stor ?i) (ID ?o) OrderStatusCancelled (stor_state ?w) =
      (Some (errors_New ''database is down''), store_of [?o])"
    by (simp add: write_fails_def world_of_def)
  note c = cancelOrder_refund_then_failed_write [THEN mp, OF conjI [OF p conjI [OF a f]]]
  show ?thesis
    apply (intro conjI)
    subgoal by (rule p)
    subgoal using a by (simp add: total_widget)
    subgoal by (simp add: write_fails_def)
    subgoal using c by (simp add: http_defs ErrCodeInternalError_def)
    subgoal using c lookup_store_of_single [of ?o] by (simp add: example_ids)
    subgoal using c by (simp add: total_widget example_ids world_of_def)
    done
qed

text \<open>
  C10. \<open>cancelOrder\<close> on a \<open>Charged\<close> order whose total is 0 calls the charge service with
  amount 0 and, when that and the status write succeed, answers 200 with a body whose JSON
  has no \<open>refundedCents\<close> key. In general the key is in a successful answer exactly when
  the order was \<open>Charged\<close> and its total is greater than zero, and then it carries the
  total.
\<close>

theorem cancelOrder_zero_total:
  "(Status order = OrderStatusCharged \<and> TotalCents order = 0 \<and>
    innerChargeOrder i (chargeServiceChargeArgs '''' 0) w = (None, w1) \<and>
    SetOrderStatus (stor i) (ID order) OrderStatusCancelled (stor_state w) = (None, s2) \<longrightarrow>
      fst (cancelOrder i order w) =
        (StatusOK, cancelOrderRes ''order cancelled successfully'' (ID order) 0) \<and>
      map_of (cancelOrderRes_json (snd (fst (cancelOrder i order w)))) ''refundedCents'' = None \<and>
      stor_state (snd (cancelOrder i order w)) = s2 \<and>
      calls (snd (cancelOrder i order w)) =
        calls w @ [CallCharge (chargeServiceChargeArgs '''' 0),
                   CallSetOrderStatus (ID order) OrderStatusCancelled]) \<and>
   (cancelOrder i order w = ((StatusOK, b), w') \<longrightarrow>
      map_of (cancelOrderRes_json b) ''refundedCents'' =
        (if Status order = OrderStatusCharged \<and> 0 <s TotalCents order
         then Some (JSONNumber (TotalCents order)) else None))"
proof (intro conjI impI)
  assume a: "Status order = OrderStatusCharged \<and> TotalCents order = 0 \<and>
    innerChargeOrder i (chargeServiceChargeArgs '''' 0) w = (None, w1) \<and>
    SetOrderStatus (stor i) (ID order) OrderStatusCancelled (stor_state w) = (None, s2)"
  then have w1: "stor_state w1 = stor_state w"
      "calls w1 = calls w @ [CallCharge (chargeServiceChargeArgs '''' 0)]"
    using innerChargeOrder_world by blast+
  from a w1 show "fst (cancelOrder i order w) =
        (StatusOK, cancelOrderRes ''order cancelled successfully'' (ID order) 0)"
    by (simp add: cancelOrder_Charged)
  from a w1 show "map_of (cancelOrderRes_json (snd (fst (cancelOrder i order w)))) ''refundedCents'' = None"
    by (simp add: cancelOrder_Charged)
  from a w1 show "stor_state (snd (cancelOrder i order w)) = s2"
    by (simp add: cancelOrder_Charged)
  from a w1 show "calls (snd (cancelOrder i order w)) =
        calls w @ [CallCharge (chargeServiceChargeArgs '''' 0),
                   CallSetOrderStatus (ID order) OrderStatusCancelled]"
    by (simp add: cancelOrder_Charged)
next
  assume ok: "cancelOrder i order w = ((StatusOK, b), w')"
  consider (charged) "Status order = OrderStatusCharged"
    | (pending) "Status order = OrderStatusPending"
    | (other) "Status order \<noteq> OrderStatusPending" "Status order \<noteq> OrderStatusCharged"
    by blast
  then show "map_of (cancelOrderRes_json b) ''refundedCents'' =
        (if Status order = OrderStatusCharged \<and> 0 <s TotalCents order
         then Some (JSONNumber (TotalCents order)) else None)"
  proof cases
    case charged
    with ok show ?thesis
      by (auto simp: cancelOrder_Charged StatusOK_def StatusInternalServerError_def
          split: prod.splits option.splits)
  next
    case pending
    with ok show ?thesis
      by (auto simp: cancelOrder_Pending StatusOK_def StatusInternalServerError_def status_defs
          split: prod.splits option.splits)
  next
    case other
    with ok show ?thesis
      by (simp add: cancelOrder_other StatusOK_def StatusConflict_def)
  qed
qed

text \<open>
  The fully discounted order is cancelled with no \<open>refundedCents\<close> in the answer; the
  widget order is cancelled with \<open>refundedCents\<close> 2000.
\<close>

theorem cancelOrder_zero_total_witness:
  "Status (free_order OrderStatusCharged) = OrderStatusCharged \<and>
   TotalCents (free_order OrderStatusCharged) = 0 \<and>
   innerChargeOrder (api_of gateway_accepts) (chargeServiceChargeArgs '''' 0)
     (world_of (store_of [free_order OrderStatusCharged])) =
     (None, \<lparr>stor_state = store_of [free_order OrderStatusCharged], charge_state = 1,
              calls = [CallCharge (chargeServiceChargeArgs '''' 0)]\<rparr>) \<and>
   SetOrderStatus memory ''o2'' OrderStatusCancelled (store_of [free_order OrderStatusCharged]) =
     (None, store_of [free_order OrderStatusCancelled]) \<and>
   fst (cancelOrder (api_of gateway_accepts) (free_order OrderStatusCharged)
     (world_of (store_of [free_order OrderStatusCharged]))) =
     (200, cancelOrderRes ''order cancelled successfully'' ''o2'' 0) \<and>
   map_of (cancelOrderRes_json (snd (fst (cancelOrder (api_of gateway_accepts)
     (free_order OrderStatusCharged) (world_of (store_of [free_order OrderStatusCharged]))))))
     ''refundedCents'' = None \<and>
   stor_state (snd (cancelOrder (api_of gateway_accepts) (free_order OrderStatusCharged)
     (world_of (store_of [free_order OrderStatusCharged])))) = store_of [free_order OrderStatusCancelled] \<and>
   cancelOrder (api_of gateway_accepts) (widget_order OrderStatusCharged)
     (world_of (store_of [widget_order OrderStatusCharged])) =
     ((200, cancelOrderRes ''order cancelled successfully'' ''o1'' 2000),
      \<lparr>stor_state = store_of [widget_order OrderStatusCancelled], charge_state = 1,
         calls = [CallCharge (chargeServiceChargeArgs '''' (- 2000)),
                  CallSetOrderStatus ''o1'' OrderStatusCancelled]\<rparr>) \<and>
   map_of (cancelOrderRes_json (cancelOrderRes ''order cancelled successfully'' ''o1'' 2000))
     ''refundedCents'' = Some (JSONNumber 2000)"
proof -
  let ?i = "api_of gateway_accepts"
  let ?o = "free_order OrderStatusCharged"
  let ?w = "world_of (store_of [?o])"
  let ?w1 = "\<lparr>stor_state = store_of [?o], charge_state = 1::nat,
              calls = [CallCharge (chargeServiceChargeArgs '''' 0)]\<rparr>"
  have p: "Status ?o = OrderStatusCharged"
    by (rule example_status)
  have t: "TotalCents ?o = 0"
    by (rule total_free)
  have a: "innerChargeOrder ?i (chargeServiceChargeArgs '''' 0) ?w = (None, ?w1)"
    by (simp add: accepted api_of_def)
  have s: "SetOrderStatus (stor ?i) (ID ?o) OrderStatusCancelled (stor_state ?w) =
      (None, store_of [free_order OrderStatusCancelled])"
    by (simp add: api_of_def memory_def world_of_def SetOrderStatus_store_of example_ids)
  note c = cancelOrder_zero_total [THEN conjunct1, THEN mp, OF conjI [OF p conjI [OF t conjI [OF a s]]]]
  let ?o' = "widget_order OrderStatusCharged"
  let ?w' = "world_of (store_of [?o'])"
  have full: "cancelOrder ?i ?o' ?w' =
     ((StatusOK, cancelOrderRes ''order cancelled successfully'' ''o1'' 2000),
      \<lparr>stor_state = store_of [widget_order OrderStatusCancelled], charge_state = 1,
         calls = [CallCharge (chargeServiceChargeArgs '''' (- 2000)),
                  CallSetOrderStatus ''o1'' OrderStatusCancelled]\<rparr>)"
    by (simp add: cancelOrder_Charged example_status example_ids total_widget accepted api_of_def
        memory_def SetOrderStatus_store_of word_sless_alt)
  note g = cancelOrder_zero_total [THEN conjunct2, THEN mp, OF full]
  show ?thesis
    apply (intro conjI)
    subgoal by (rule p)
    subgoal by (rule t)
    subgoal by (rule a)
    subgoal using s by (simp add: api_of_def world_of_def example_ids)
    subgoal using c by (simp add: http_defs example_ids)
    subgoal using c by simp
    subgoal using c by simp
    subgoal using full by (simp add: http_defs)
    subgoal using g by (simp add: example_status total_widget word_sless_alt)
    done
qed

section \<open>The controller: postOrders\<close>

text \<open>
  C6. \<open>postOrders\<close> on a request whose body decodes checks, in this order and before any
  call to the store: the customer email contains \<open>@\<close>, else 400 \<open>invalid_email\<close>; there
  is at least one line item, else 400 \<open>invalid_line_items\<close>; the total, the \<open>int64\<close> sum
  of price times quantity over the line items, is not negative, else 400
  \<open>invalid_total\<close>. A request that fails a check leaves everything as it was. One that
  passes all three (a total of zero included) is handed to \<open>InsertOrder\<close> as an order
  with an empty id and status \<open>Pending\<close>; the answer is 201 with that order under the id
  the store returned, 409 \<open>order_already_exists\<close> when the store reports
  \<open>ErrOrderExists\<close>, and 500 \<open>internal_error\<close> on any other error.
\<close>

theorem postOrders_validation:
  "(CHR ''@'' \<notin> set customerEmail \<longrightarrow>
      postOrders i rnd (Inr (postOrderArgs customerEmail lineItems)) w =
        ((StatusBadRequest, errorResponse ErrCodeInvalidEmail ''invalid customerEmail''), w)) \<and>
   (CHR ''@'' \<in> set customerEmail \<and> lineItems = [] \<longrightarrow>
      postOrders i rnd (Inr (postOrderArgs customerEmail lineItems)) w =
        ((StatusBadRequest,
          errorResponse ErrCodeInvalidLineItems ''an order must contain at least one line item''), w)) \<and>
   (CHR ''@'' \<in> set customerEmail \<and> lineItems \<noteq> [] \<and>
    (\<Sum>item\<leftarrow>lineItems. PriceCents item * Quantity item) <s 0 \<longrightarrow>
      postOrders i rnd (Inr (postOrderArgs customerEmail lineItems)) w =
        ((StatusBadRequest,
          errorResponse ErrCodeInvalidTotal ''an order's total cannot be less than 0''), w)) \<and>
   (CHR ''@'' \<in> set customerEmail \<and> lineItems \<noteq> [] \<and>
    0 \<le>s (\<Sum>item\<leftarrow>lineItems. PriceCents item * Quantity item) \<and>
    InsertOrder (stor i) rnd
      \<lparr>ID = '''', CustomerEmail = customerEmail, LineItems = lineItems, Status = OrderStatusPending\<rparr>
      (stor_state w) = (r, s') \<longrightarrow>
      fst (postOrders i rnd (Inr (postOrderArgs customerEmail lineItems)) w) =
        (case r of
           Inr new_id \<Rightarrow>
             (StatusCreated,
              postOrderRes \<lparr>ID = new_id, CustomerEmail = customerEmail, LineItems = lineItems,
                             Status = OrderStatusPending\<rparr>)
         | Inl err \<Rightarrow>
             if errors_Is err ErrOrderExists
             then (StatusConflict, errorResponse ErrCodeOrderExists ''order already exists'')
             else (StatusInternalServerError,
                   errorResponse ErrCodeInternalError (''error inserting order: '' @ error_Error err))) \<and>
      stor_state (snd (postOrders i rnd (Inr (postOrderArgs customerEmail lineItems)) w)) = s' \<and>
      calls (snd (postOrders i rnd (Inr (postOrderArgs customerEmail lineItems)) w)) =
        calls w @ [CallInsertOrder
          \<lparr>ID = '''', CustomerEmail = customerEmail, LineItems = lineItems,
             Status = OrderStatusPending\<rparr>])"
proof (intro conjI impI)
  assume "CHR ''@'' \<notin> set customerEmail"
  then show "postOrders i rnd (Inr (postOrderArgs customerEmail lineItems)) w =
        ((StatusBadRequest, errorResponse ErrCodeInvalidEmail ''invalid customerEmail''), w)"
    by (simp add: postOrders_def handleError_def strings_Contains_char)
next
  assume "CHR ''@'' \<in> set customerEmail \<and> lineItems = []"
  then show "postOrders i rnd (Inr (postOrderArgs customerEmail lineItems)) w =
        ((StatusBadRequest,
          errorResponse ErrCodeInvalidLineItems ''an order must contain at least one line item''), w)"
    by (simp add: postOrders_def handleError_def strings_Contains_char)
next
  assume "CHR ''@'' \<in> set customerEmail \<and> lineItems \<noteq> [] \<and>
    (\<Sum>item\<leftarrow>lineItems. PriceCents item * Quantity item) <s 0"
  then show "postOrders i rnd (Inr (postOrderArgs customerEmail lineItems)) w =
        ((StatusBadRequest,
          errorResponse ErrCodeInvalidTotal ''an order's total cannot be less than 0''), w)"
    by (cases lineItems)
      (simp_all add: postOrders_def handleError_def strings_Contains_char TotalCents_sum_list)
next
  assume a: "CHR ''@'' \<in> set customerEmail \<and> lineItems \<noteq> [] \<and>
    0 \<le>s (\<Sum>item\<leftarrow>lineItems. PriceCents item * Quantity item) \<and>
    InsertOrder (stor i) rnd
      \<lparr>ID = '''', CustomerEmail = customerEmail, LineItems = lineItems, Status = OrderStatusPending\<rparr>
      (stor_state w) = (r, s')"
  then have nonneg: "\<not> (\<Sum>item\<leftarrow>lineItems. PriceCents item * Quantity item) <s 0"
    by (simp add: word_sless_alt word_sle_eq)
  from a nonneg show "fst (postOrders i rnd (Inr (postOrderArgs customerEmail lineItems)) w) =
        (case r of
           Inr new_id \<Rightarrow>
             (StatusCreated,
              postOrderRes \<lparr>ID = new_id, CustomerEmail = customerEmail, LineItems = lineItems,
                             Status = OrderStatusPending\<rparr>)
         | Inl err \<Rightarrow>
             if errors_Is err ErrOrderExists
             then (StatusConflict, errorResponse ErrCodeOrderExists ''order already exists'')
             else (StatusInternalServerError,
                   errorResponse ErrCodeInternalError (''error inserting order: '' @ error_Error err)))"
    by (cases lineItems; cases r)
      (simp_all add: postOrders_def handleError_def strings_Contains_char TotalCents_sum_list
        stor_InsertOrder_def Let_def)
  from a nonneg show "stor_state (snd (postOrders i rnd (Inr (postOrderArgs customerEmail lineItems)) w)) = s'"
    by (cases lineItems; cases r)
      (simp_all add: postOrders_def handleError_def strings_Contains_char TotalCents_sum_list
        stor_InsertOrder_def Let_def)
  from a nonneg show "calls (snd (postOrders i rnd (Inr (postOrderArgs customerEmail lineItems)) w)) =
        calls w @ [CallInsertOrder
          \<lparr>ID = '''', CustomerEmail = customerEmail, LineItems = lineItems,
             Status = OrderStatusPending\<rparr>]"
    by (cases lineItems; cases r)
      (simp_all add: postOrders_def handleError_def strings_Contains_char TotalCents_sum_list
        stor_InsertOrder_def Let_def)
qed

text \<open>
  An email without \<open>@\<close>; no line items; a lone voucher of -500; the fully discounted
  order, created under the id the random bytes 01 02 03 encode; and the same request when
  that id is taken.
\<close>

theorem postOrders_validation_witness:
  "CHR ''@'' \<notin> set ''nobody'' \<and>
   postOrders (api_of gateway_accepts) (Inr [1, 2, 3])
     (Inr (postOrderArgs ''nobody'' (LineItems (widget_order 0)))) (world_of NewMemory) =
     ((400, errorResponse ''invalid_email'' ''invalid customerEmail''), world_of NewMemory) \<and>
   CHR ''@'' \<in> set ''a@b'' \<and>
   postOrders (api_of gateway_accepts) (Inr [1, 2, 3]) (Inr (postOrderArgs ''a@b'' [])) (world_of NewMemory) =
     ((400, errorResponse ''invalid_line_items'' ''an order must contain at least one line item''),
      world_of NewMemory) \<and>
   (\<Sum>item\<leftarrow>[\<lparr>Description = ''Voucher'', PriceCents = - 500, Quantity = 1\<rparr>].
      PriceCents item * Quantity item) <s 0 \<and>
   postOrders (api_of gateway_accepts) (Inr [1, 2, 3])
     (Inr (postOrderArgs ''a@b'' [\<lparr>Description = ''Voucher'', PriceCents = - 500, Quantity = 1\<rparr>]))
     (world_of NewMemory) =
     ((400, errorResponse ''invalid_total'' ''an order's total cannot be less than 0''),
      world_of NewMemory) \<and>
   0 \<le>s (\<Sum>item\<leftarrow>LineItems (free_order 0). PriceCents item * Quantity item) \<and>
   fst (postOrders (api_of gateway_accepts) (Inr [1, 2, 3])
     (Inr (postOrderArgs ''bob@example.com'' (LineItems (free_order 0)))) (world_of NewMemory)) =
     (201, postOrderRes ((free_order OrderStatusPending)\<lparr>ID := ''010203''\<rparr>)) \<and>
   DAList.lookup (orders (stor_state (snd (postOrders (api_of gateway_accepts) (Inr [1, 2, 3])
     (Inr (postOrderArgs ''bob@example.com'' (LineItems (free_order 0)))) (world_of NewMemory)))))
     ''010203'' = Some ((free_order OrderStatusPending)\<lparr>ID := ''010203''\<rparr>) \<and>
   fst (postOrders (api_of gateway_accepts) (Inr [1, 2, 3])
     (Inr (postOrderArgs ''bob@example.com'' (LineItems (free_order 0))))
     (world_of (store_of [(free_order OrderStatusCharged)\<lparr>ID := ''010203''\<rparr>]))) =
     (409, errorResponse ''order_already_exists'' ''order already exists'')"
proof -
  let ?i = "api_of gateway_accepts"
  let ?rnd = "Inr [1, 2, 3] :: rand_Read"
  let ?w = "world_of NewMemory"
  let ?voucher = "[\<lparr>Description = ''Voucher'', PriceCents = - 500, Quantity = 1\<rparr>]"
  let ?items = "LineItems (free_order 0)"
  let ?new = "\<lparr>ID = '''', CustomerEmail = ''bob@example.com'', LineItems = ?items,
      Status = OrderStatusPending\<rparr>"
  let ?stored = "(free_order OrderStatusPending)\<lparr>ID := ''010203''\<rparr>"
  let ?full = "store_of [(free_order OrderStatusCharged)\<lparr>ID := ''010203''\<rparr>]"
  have e1: "CHR ''@'' \<notin> set ''nobody''" and e2: "CHR ''@'' \<in> set ''a@b''"
    and e3: "CHR ''@'' \<in> set ''bob@example.com''"
    by simp_all
  have n1: "?voucher \<noteq> []" and n2: "?items \<noteq> []"
    by (simp_all add: free_order_def)
  have t1: "(\<Sum>item\<leftarrow>?voucher. PriceCents item * Quantity item) <s 0"
    by (simp add: word_sless_alt)
  have t2: "0 \<le>s (\<Sum>item\<leftarrow>?items. PriceCents item * Quantity item)"
    by (simp add: free_order_def)
  have hex: "hex_EncodeToString [1, 2, 3] = ''010203''"
    by (simp add: hex_EncodeToString_def hextable_def drop_bit_eq_div)
  have ins: "InsertOrder (stor ?i) ?rnd ?new (stor_state ?w) =
      (Inr ''010203'', \<lparr>orders = DAList.update ''010203'' ?stored DAList.empty\<rparr>)"
    by (simp add: api_of_def memory_def MemoryInstance_InsertOrder_def hex world_of_def NewMemory_def
        free_order_def)
  have col: "InsertOrder (stor ?i) ?rnd ?new (stor_state (world_of ?full)) = (Inl ErrOrderExists, ?full)"
    by (simp add: api_of_def memory_def MemoryInstance_InsertOrder_def hex world_of_def store_of_def
        free_order_def DAList.lookup_update)
  note c1 = postOrders_validation [THEN conjunct1, THEN mp, OF e1]
  note c2 = postOrders_validation [THEN conjunct2, THEN conjunct1, THEN mp, OF conjI [OF e2 refl]]
  note c3 = postOrders_validation [THEN conjunct2, THEN conjunct2, THEN conjunct1, THEN mp,
      OF conjI [OF e2 conjI [OF n1 t1]]]
  note c4 = postOrders_validation [THEN conjunct2, THEN conjunct2, THEN conjunct2, THEN mp,
      OF conjI [OF e3 conjI [OF n2 conjI [OF t2 ins]]]]
  note c5 = postOrders_validation [THEN conjunct2, THEN conjunct2, THEN conjunct2, THEN mp,
      OF conjI [OF e3 conjI [OF n2 conjI [OF t2 col]]]]
  show ?thesis
    apply (intro conjI)
    subgoal by (rule e1)
    subgoal by (simp add: c1 http_defs ErrCodeInvalidEmail_def)
    subgoal by (rule e2)
    subgoal by (simp add: c2 http_defs ErrCodeInvalidLineItems_def)
    subgoal by (rule t1)
    subgoal by (simp add: c3 http_defs ErrCodeInvalidTotal_def)
    subgoal by (rule t2)
    subgoal using c4 by (simp add: http_defs free_order_def status_defs)
    subgoal using c4 by (simp add: free_order_def status_defs)
    subgoal using c5 by (simp add: http_defs ErrCodeOrderExists_def free_order_def)
    done
qed

section \<open>The store: GetOrders\<close>

lemma GetOrders_fold:
  "fold (\<lambda>(k, order) acc. if P order then go_append acc order else acc) al acc =
     (if map snd (filter (\<lambda>(k, order). P order) al) = [] then acc
      else Some ((case acc of None \<Rightarrow> [] | Some xs \<Rightarrow> xs) @ map snd (filter (\<lambda>(k, order). P order) al)))"
  by (induction al arbitrary: acc) (auto simp: go_append_def split: option.splits)

lemma count_list_keys:
  "distinct (map fst al) \<Longrightarrow>
   count_list (map snd (filter (\<lambda>(k, order). P order) al)) x =
     card {k. map_of al k = Some x \<and> P x}"
proof (induction al)
  case Nil
  then show ?case by simp
next
  case (Cons a al)
  obtain k0 o0 where a: "a = (k0, o0)" by (cases a)
  from Cons.prems a have fresh: "map_of al k0 = None" and d: "distinct (map fst al)"
    by (auto simp: map_of_eq_None_iff)
  let ?S = "{k. map_of al k = Some x \<and> P x}"
  have fin: "finite ?S"
    by (rule finite_subset [of _ "dom (map_of al)"]) (auto simp: finite_dom_map_of)
  have notin: "k0 \<notin> ?S"
    using fresh by simp
  have lhs: "count_list (map snd (filter (\<lambda>(k, order). P order) (a # al))) x =
      (if o0 = x \<and> P x then 1 else 0) + count_list (map snd (filter (\<lambda>(k, order). P order) al)) x"
    by (simp add: a)
  have rhs: "card {k. map_of (a # al) k = Some x \<and> P x} = (if o0 = x \<and> P x then 1 else 0) + card ?S"
  proof (cases "o0 = x \<and> P x")
    case True
    then have "{k. map_of (a # al) k = Some x \<and> P x} = insert k0 ?S"
      using fresh a by auto
    then have "card {k. map_of (a # al) k = Some x \<and> P x} = Suc (card ?S)"
      using card_insert_disjoint [OF fin notin] by (simp only:)
    with True show ?thesis by simp
  next
    case False
    then have "{k. map_of (a # al) k = Some x \<and> P x} = ?S"
      using fresh a by auto
    with False show ?thesis by simp
  qed
  show ?case
    using Cons.IH [OF d] by (simp only: lhs rhs)
qed

lemma GetOrders_found:
  "MemoryInstance_GetOrders status i =
     (Inr (if map snd (filter (\<lambda>(k, order). status = - 1 \<or> Status order = status)
                  (DAList.impl_of (orders i))) = [] then None
           else Some (map snd (filter (\<lambda>(k, order). status = - 1 \<or> Status order = status)
                  (DAList.impl_of (orders i))))), i)"
  by (simp add: MemoryInstance_GetOrders_def GetOrders_fold)

lemma GetOrders_counts:
  "\<exists>found. MemoryInstance_GetOrders status i = (Inr found, i) \<and>
     (\<forall>order. count_list (case found of None \<Rightarrow> [] | Some xs \<Rightarrow> xs) order =
        card {k. DAList.lookup (orders i) k = Some order \<and> (status = - 1 \<or> Status order = status)})"
proof -
  let ?l = "map snd (filter (\<lambda>(k, order). status = - 1 \<or> Status order = status)
      (DAList.impl_of (orders i)))"
  have sl: "(case (if ?l = [] then None else Some ?l) of None \<Rightarrow> [] | Some xs \<Rightarrow> xs) = ?l"
    by (cases "?l = []") simp_all
  have c: "\<forall>order. count_list ?l order =
      card {k. DAList.lookup (orders i) k = Some order \<and> (status = - 1 \<or> Status order = status)}"
    using count_list_keys [of "DAList.impl_of (orders i)" "\<lambda>order. status = - 1 \<or> Status order = status"]
    by (simp only: DAList.lookup.rep_eq DAList.impl_of_distinct) simp
  show ?thesis
  proof (intro exI conjI)
    show "MemoryInstance_GetOrders status i = (Inr (if ?l = [] then None else Some ?l), i)"
      by (rule GetOrders_found)
    show "\<forall>order. count_list (case (if ?l = [] then None else Some ?l) of None \<Rightarrow> [] | Some xs \<Rightarrow> xs) order =
        card {k. DAList.lookup (orders i) k = Some order \<and> (status = - 1 \<or> Status order = status)}"
      unfolding sl by (rule c)
  qed
qed

text \<open>
  C7. \<open>GetOrders\<close> never fails and leaves the store as it is. Reading the slice it
  returns as a sequence (a nil slice is the empty one), every record occurs in it exactly
  as often as there are keys that hold it and pass the filter: all of them for the filter
  \<open>-1\<close>, those whose status equals the filter otherwise. So no stored order is missing and
  none is repeated. The store itself returns the nil slice when nothing matches; the
  handler \<open>getOrders\<close>, which resolves the query token to the filter and calls the store,
  puts an empty slice in its place, so the response always carries a sequence, with the
  same elements.
\<close>

theorem GetOrders_exact:
  "(\<exists>found. MemoryInstance_GetOrders status i = (Inr found, i) \<and>
      (\<forall>order. count_list (case found of None \<Rightarrow> [] | Some xs \<Rightarrow> xs) order =
         card {k. DAList.lookup (orders i) k = Some order \<and> (status = - 1 \<or> Status order = status)})) \<and>
   ((query, status) \<in> {('''', - 1), (''pending'', OrderStatusPending), (''charged'', OrderStatusCharged),
        (''fulfilled'', OrderStatusFulfilled), (''cancelled'', OrderStatusCancelled)} \<and>
    stor_state w = i \<longrightarrow>
      (\<exists>xs. getOrders \<lparr>stor = memory, chargeService = svc\<rparr> query w =
           ((StatusOK, getOrdersRes (Some xs)), w\<lparr>calls := calls w @ [CallGetOrders status]\<rparr>) \<and>
         (\<forall>order. count_list xs order =
            card {k. DAList.lookup (orders i) k = Some order \<and> (status = - 1 \<or> Status order = status)})))"
proof (intro conjI impI)
  show "\<exists>found. MemoryInstance_GetOrders status i = (Inr found, i) \<and>
      (\<forall>order. count_list (case found of None \<Rightarrow> [] | Some xs \<Rightarrow> xs) order =
         card {k. DAList.lookup (orders i) k = Some order \<and> (status = - 1 \<or> Status order = status)})"
    by (rule GetOrders_counts)
next
  assume a: "(query, status) \<in> {('''', - 1), (''pending'', OrderStatusPending),
      (''charged'', OrderStatusCharged), (''fulfilled'', OrderStatusFulfilled),
      (''cancelled'', OrderStatusCancelled)} \<and> stor_state w = i"
  obtain found where f: "MemoryInstance_GetOrders status i = (Inr found, i)"
    and c: "\<forall>order. count_list (case found of None \<Rightarrow> [] | Some xs \<Rightarrow> xs) order =
        card {k. DAList.lookup (orders i) k = Some order \<and> (status = - 1 \<or> Status order = status)}"
    using GetOrders_counts by blast
  have w: "w\<lparr>stor_state := i\<rparr> = w"
    using a by simp
  have q: "(if query = ''pending'' then Some OrderStatusPending
            else if query = ''charged'' then Some OrderStatusCharged
            else if query = ''fulfilled'' then Some OrderStatusFulfilled
            else if query = ''cancelled'' then Some OrderStatusCancelled
            else if query = '''' then Some (- 1)
            else None) = Some status"
    using a by auto
  have g: "stor_GetOrders \<lparr>stor = memory, chargeService = svc\<rparr> status w =
      (Inr found, w\<lparr>calls := calls w @ [CallGetOrders status]\<rparr>)"
    using a f w by (simp add: stor_GetOrders_def memory_def)
  have "getOrders \<lparr>stor = memory, chargeService = svc\<rparr> query w =
      ((StatusOK, getOrdersRes (Some (case found of None \<Rightarrow> [] | Some xs \<Rightarrow> xs))),
       w\<lparr>calls := calls w @ [CallGetOrders status]\<rparr>)"
    by (cases found) (simp_all add: getOrders_def q g)
  with c show "\<exists>xs. getOrders \<lparr>stor = memory, chargeService = svc\<rparr> query w =
           ((StatusOK, getOrdersRes (Some xs)), w\<lparr>calls := calls w @ [CallGetOrders status]\<rparr>) \<and>
         (\<forall>order. count_list xs order =
            card {k. DAList.lookup (orders i) k = Some order \<and> (status = - 1 \<or> Status order = status)})"
    by (intro exI conjI)
qed

text \<open>
  A store with a charged and a pending order: all orders, the pending ones, and the
  fulfilled ones, of which there are none.
\<close>

theorem GetOrders_exact_witness:
  "MemoryInstance_GetOrders (- 1) (store_of [widget_order OrderStatusCharged, free_order OrderStatusPending]) =
     (Inr (Some [widget_order OrderStatusCharged, free_order OrderStatusPending]),
      store_of [widget_order OrderStatusCharged, free_order OrderStatusPending]) \<and>
   MemoryInstance_GetOrders OrderStatusPending
     (store_of [widget_order OrderStatusCharged, free_order OrderStatusPending]) =
     (Inr (Some [free_order OrderStatusPending]),
      store_of [widget_order OrderStatusCharged, free_order OrderStatusPending]) \<and>
   card {k. DAList.lookup (orders (store_of [widget_order OrderStatusCharged, free_order OrderStatusPending])) k =
            Some (free_order OrderStatusPending) \<and>
            (OrderStatusPending = - 1 \<or> Status (free_order OrderStatusPending) = OrderStatusPending)} = 1 \<and>
   card {k. DAList.lookup (orders (store_of [widget_order OrderStatusCharged, free_order OrderStatusPending])) k =
            Some (widget_order OrderStatusCharged) \<and>
            (OrderStatusPending = - 1 \<or> Status (widget_order OrderStatusCharged) = OrderStatusPending)} = 0 \<and>
   (''fulfilled'', OrderStatusFulfilled) \<in>
     {('''', - 1), (''pending'', OrderStatusPending), (''charged'', OrderStatusCharged),
      (''fulfilled'', OrderStatusFulfilled), (''cancelled'', OrderStatusCancelled)} \<and>
   stor_state (world_of (store_of [widget_order OrderStatusCharged, free_order OrderStatusPending])) =
     store_of [widget_order OrderStatusCharged, free_order OrderStatusPending] \<and>
   MemoryInstance_GetOrders OrderStatusFulfilled
     (store_of [widget_order OrderStatusCharged, free_order OrderStatusPending]) =
     (Inr None, store_of [widget_order OrderStatusCharged, free_order OrderStatusPending]) \<and>
   fst (getOrders \<lparr>stor = memory, chargeService = gateway_accepts\<rparr> ''fulfilled''
     (world_of (store_of [widget_order OrderStatusCharged, free_order OrderStatusPending]))) =
     (200, getOrdersRes (Some []))"
proof -
  let ?s = "store_of [widget_order OrderStatusCharged, free_order OrderStatusPending]"
  have impl: "\<And>a b. DAList.impl_of (orders (store_of [widget_order a, free_order b])) =
      [(''o1'', widget_order a), (''o2'', free_order b)]"
    by (simp add: store_of_def example_ids DAList.update.rep_eq DAList.empty.rep_eq)
  have all: "MemoryInstance_GetOrders (- 1) ?s =
      (Inr (Some [widget_order OrderStatusCharged, free_order OrderStatusPending]), ?s)"
    by (simp add: MemoryInstance_GetOrders_def impl go_append_def)
  have pending: "MemoryInstance_GetOrders OrderStatusPending ?s =
      (Inr (Some [free_order OrderStatusPending]), ?s)"
    by (simp add: MemoryInstance_GetOrders_def impl go_append_def example_status status_defs)
  have fulfilled: "MemoryInstance_GetOrders OrderStatusFulfilled ?s = (Inr None, ?s)"
    by (simp add: MemoryInstance_GetOrders_def impl go_append_def example_status status_defs)
  have ne: "widget_order OrderStatusCharged \<noteq> free_order OrderStatusPending"
    by (simp add: widget_order_def free_order_def)
  from GetOrders_exact [THEN conjunct1, of OrderStatusPending ?s]
  have counts: "\<forall>order. count_list [free_order OrderStatusPending] order =
      card {k. DAList.lookup (orders ?s) k = Some order \<and>
               (OrderStatusPending = - 1 \<or> Status order = OrderStatusPending)}"
    by (simp only: pending prod.inject sum.inject) simp
  have m: "(''fulfilled'', OrderStatusFulfilled) \<in>
     {('''', - 1), (''pending'', OrderStatusPending), (''charged'', OrderStatusCharged),
      (''fulfilled'', OrderStatusFulfilled), (''cancelled'', OrderStatusCancelled)}"
    by simp
  have st: "stor_state (world_of ?s) = ?s"
    by (simp add: world_of_def)
  from GetOrders_exact [THEN conjunct2, THEN mp, OF conjI [OF m st], of gateway_accepts]
  obtain xs where xs: "getOrders \<lparr>stor = memory, chargeService = gateway_accepts\<rparr> ''fulfilled''
        (world_of ?s) = ((StatusOK, getOrdersRes (Some xs)),
         (world_of ?s)\<lparr>calls := calls (world_of ?s) @ [CallGetOrders OrderStatusFulfilled]\<rparr>)"
    by blast
  have direct: "fst (getOrders \<lparr>stor = memory, chargeService = gateway_accepts\<rparr> ''fulfilled''
        (world_of ?s)) = (StatusOK, getOrdersRes (Some []))"
    by (simp add: getOrders_def stor_GetOrders_def memory_def world_of_def fulfilled)
  show ?thesis
    apply (intro conjI)
    subgoal by (rule all)
    subgoal by (rule pending)
    subgoal using counts [rule_format, of "free_order OrderStatusPending"] by simp
    subgoal using counts [rule_format, of "widget_order OrderStatusCharged"] ne by simp
    subgoal by (rule m)
    subgoal by (rule st)
    subgoal by (rule fulfilled)
    subgoal using xs direct by (simp add: http_defs)
    done
qed

section \<open>The store: InsertOrder\<close>

lemma InsertOrder_Inl:
  "MemoryInstance_InsertOrder rnd order i = (Inl err, i') \<Longrightarrow> i' = i"
  by (auto simp: MemoryInstance_InsertOrder_def split: if_splits sum.splits option.splits)

lemma InsertOrder_Inr:
  "MemoryInstance_InsertOrder rnd order i = (Inr oid, i') \<Longrightarrow>
     DAList.lookup (orders i) oid = None \<and>
     DAList.lookup (orders i') oid = Some (order\<lparr>ID := oid\<rparr>) \<and>
     (\<forall>k. k \<noteq> oid \<longrightarrow> DAList.lookup (orders i') k = DAList.lookup (orders i) k)"
  by (auto simp: MemoryInstance_InsertOrder_def DAList.lookup_update
      split: if_splits sum.splits option.splits)

lemma InsertOrder_all_unique:
  "InsertOrder_all cs i = (rs, i') \<Longrightarrow>
     distinct (inserted_ids rs) \<and>
     (\<forall>oid\<in>set (inserted_ids rs). DAList.lookup (orders i) oid = None \<and>
        (\<exists>stored. DAList.lookup (orders i') oid = Some stored \<and> ID stored = oid)) \<and>
     (\<forall>k old. DAList.lookup (orders i) k = Some old \<longrightarrow> DAList.lookup (orders i') k = Some old)"
proof (induction cs arbitrary: i rs i')
  case Nil
  then show ?case by simp
next
  case (Cons c cs)
  obtain rnd order where c: "c = (rnd, order)" by (cases c)
  obtain r i1 where first: "MemoryInstance_InsertOrder rnd order i = (r, i1)"
    by (cases "MemoryInstance_InsertOrder rnd order i")
  obtain rs' i2 where rest: "InsertOrder_all cs i1 = (rs', i2)"
    by (cases "InsertOrder_all cs i1")
  from Cons.prems c first rest have rs: "rs = r # rs'" and i': "i' = i2"
    by simp_all
  note IH = Cons.IH [OF rest]
  show ?case
  proof (cases r)
    case (Inl err)
    with first have "i1 = i" by (simp add: InsertOrder_Inl)
    with IH Inl rs i' show ?thesis by simp
  next
    case (Inr oid)
    with first have new: "DAList.lookup (orders i) oid = None"
      "DAList.lookup (orders i1) oid = Some (order\<lparr>ID := oid\<rparr>)"
      "\<And>k. k \<noteq> oid \<Longrightarrow> DAList.lookup (orders i1) k = DAList.lookup (orders i) k"
      using InsertOrder_Inr by blast+
    from IH new(2) have fresh: "oid \<notin> set (inserted_ids rs')"
      by auto
    from IH new(2) have kept: "DAList.lookup (orders i2) oid = Some (order\<lparr>ID := oid\<rparr>)"
      by blast
    have old: "\<And>k v. DAList.lookup (orders i) k = Some v \<Longrightarrow> DAList.lookup (orders i2) k = Some v"
      using IH new(1) new(3) by (metis option.distinct(1))
    have later: "\<And>k. k \<in> set (inserted_ids rs') \<Longrightarrow> DAList.lookup (orders i) k = None"
      using IH fresh new(3) by metis
    show ?thesis
      using IH fresh kept old later new(1) by (auto simp: rs i' Inr)
  qed
qed

lemma hex_010203: "hex_EncodeToString [1, 2, 3] = ''010203''"
  by (simp add: hex_EncodeToString_def hextable_def drop_bit_eq_div)

text \<open>
  C5. \<open>InsertOrder\<close> inserts under the order's id, or, when that is empty, under the hex
  encoding of the bytes read from \<open>crypto/rand\<close>. When the store already holds that id
  the call returns \<open>ErrOrderExists\<close> and the same store; otherwise it returns the id and
  the store holds the order under it. Over any sequence of calls from any store, the ids
  returned are pairwise different, none was in the store at the start, each is the id of
  the record the final store holds under it, and every record of the initial store is
  still there unchanged.
\<close>

theorem InsertOrder_unique_ids:
  "(ID order \<noteq> '''' \<and> DAList.lookup (orders i) (ID order) = Some old \<longrightarrow>
      MemoryInstance_InsertOrder rnd order i = (Inl ErrOrderExists, i)) \<and>
   (ID order = '''' \<and> DAList.lookup (orders i) (hex_EncodeToString b) = Some old \<longrightarrow>
      MemoryInstance_InsertOrder (Inr b) order i = (Inl ErrOrderExists, i)) \<and>
   (ID order \<noteq> '''' \<and> DAList.lookup (orders i) (ID order) = None \<longrightarrow>
      fst (MemoryInstance_InsertOrder rnd order i) = Inr (ID order) \<and>
      DAList.lookup (orders (snd (MemoryInstance_InsertOrder rnd order i))) (ID order) = Some order) \<and>
   (ID order = '''' \<and> DAList.lookup (orders i) (hex_EncodeToString b) = None \<longrightarrow>
      fst (MemoryInstance_InsertOrder (Inr b) order i) = Inr (hex_EncodeToString b) \<and>
      DAList.lookup (orders (snd (MemoryInstance_InsertOrder (Inr b) order i))) (hex_EncodeToString b) =
        Some (order\<lparr>ID := hex_EncodeToString b\<rparr>)) \<and>
   (InsertOrder_all cs i = (rs, i') \<longrightarrow>
      distinct (inserted_ids rs) \<and>
      (\<forall>oid\<in>set (inserted_ids rs). DAList.lookup (orders i) oid = None \<and>
         (\<exists>stored. DAList.lookup (orders i') oid = Some stored \<and> ID stored = oid)) \<and>
      (\<forall>k kept. DAList.lookup (orders i) k = Some kept \<longrightarrow> DAList.lookup (orders i') k = Some kept))"
proof (intro conjI impI)
  assume "ID order \<noteq> '''' \<and> DAList.lookup (orders i) (ID order) = Some old"
  then show "MemoryInstance_InsertOrder rnd order i = (Inl ErrOrderExists, i)"
    by (simp add: MemoryInstance_InsertOrder_def)
next
  assume "ID order = '''' \<and> DAList.lookup (orders i) (hex_EncodeToString b) = Some old"
  then show "MemoryInstance_InsertOrder (Inr b) order i = (Inl ErrOrderExists, i)"
    by (simp add: MemoryInstance_InsertOrder_def)
next
  assume a: "ID order \<noteq> '''' \<and> DAList.lookup (orders i) (ID order) = None"
  then show "fst (MemoryInstance_InsertOrder rnd order i) = Inr (ID order)"
    by (simp add: MemoryInstance_InsertOrder_def)
  from a show "DAList.lookup (orders (snd (MemoryInstance_InsertOrder rnd order i))) (ID order) = Some order"
    by (simp add: MemoryInstance_InsertOrder_def)
next
  assume a: "ID order = '''' \<and> DAList.lookup (orders i) (hex_EncodeToString b) = None"
  then show "fst (MemoryInstance_InsertOrder (Inr b) order i) = Inr (hex_EncodeToString b)"
    by (simp add: MemoryInstance_InsertOrder_def)
  from a show "DAList.lookup (orders (snd (MemoryInstance_InsertOrder (Inr b) order i)))
      (hex_EncodeToString b) = Some (order\<lparr>ID := hex_EncodeToString b\<rparr>)"
    by (simp add: MemoryInstance_InsertOrder_def)
next
  assume a: "InsertOrder_all cs i = (rs, i')"
  from InsertOrder_all_unique [OF a] show "distinct (inserted_ids rs)"
    by blast
  from InsertOrder_all_unique [OF a]
  show "\<forall>oid\<in>set (inserted_ids rs). DAList.lookup (orders i) oid = None \<and>
         (\<exists>stored. DAList.lookup (orders i') oid = Some stored \<and> ID stored = oid)"
    by blast
  from InsertOrder_all_unique [OF a]
  show "\<forall>k kept. DAList.lookup (orders i) k = Some kept \<longrightarrow> DAList.lookup (orders i') k = Some kept"
    by blast
qed

text \<open>
  A caller-supplied id that is taken; a generated id on the empty store; and four calls
  of which the second generates the id of the first and the fourth supplies the id of the
  third.
\<close>

theorem InsertOrder_unique_ids_witness:
  "ID (widget_order OrderStatusPending) \<noteq> '''' \<and>
   DAList.lookup (orders (store_of [widget_order OrderStatusCharged])) (ID (widget_order OrderStatusPending)) =
     Some (widget_order OrderStatusCharged) \<and>
   MemoryInstance_InsertOrder (Inr [1, 2, 3]) (widget_order OrderStatusPending)
     (store_of [widget_order OrderStatusCharged]) =
     (Inl ErrOrderExists, store_of [widget_order OrderStatusCharged]) \<and>
   ID ((free_order OrderStatusPending)\<lparr>ID := ''''\<rparr>) = '''' \<and>
   DAList.lookup (orders NewMemory) (hex_EncodeToString [1, 2, 3]) = None \<and>
   fst (MemoryInstance_InsertOrder (Inr [1, 2, 3]) ((free_order OrderStatusPending)\<lparr>ID := ''''\<rparr>) NewMemory) =
     Inr ''010203'' \<and>
   fst (InsertOrder_all
     [(Inr [1, 2, 3], (free_order OrderStatusPending)\<lparr>ID := ''''\<rparr>),
      (Inr [1, 2, 3], (widget_order OrderStatusPending)\<lparr>ID := ''''\<rparr>),
      (Inr [4], widget_order OrderStatusPending),
      (Inr [4], (free_order OrderStatusCharged)\<lparr>ID := ''o1''\<rparr>)] NewMemory) =
     [Inr ''010203'', Inl ErrOrderExists, Inr ''o1'', Inl ErrOrderExists] \<and>
   distinct (inserted_ids [Inr ''010203'', Inl ErrOrderExists, Inr ''o1'', Inl ErrOrderExists]) \<and>
   DAList.lookup (orders (snd (InsertOrder_all
     [(Inr [1, 2, 3], (free_order OrderStatusPending)\<lparr>ID := ''''\<rparr>),
      (Inr [1, 2, 3], (widget_order OrderStatusPending)\<lparr>ID := ''''\<rparr>),
      (Inr [4], widget_order OrderStatusPending),
      (Inr [4], (free_order OrderStatusCharged)\<lparr>ID := ''o1''\<rparr>)] NewMemory))) ''o1'' =
     Some (widget_order OrderStatusPending)"
proof -
  let ?cs = "[(Inr [1, 2, 3], (free_order OrderStatusPending)\<lparr>ID := ''''\<rparr>),
      (Inr [1, 2, 3], (widget_order OrderStatusPending)\<lparr>ID := ''''\<rparr>),
      (Inr [4], widget_order OrderStatusPending),
      (Inr [4], (free_order OrderStatusCharged)\<lparr>ID := ''o1''\<rparr>)] :: (rand_Read \<times> Order) list"
  let ?rs = "[Inr ''010203'', Inl ErrOrderExists, Inr ''o1'', Inl ErrOrderExists] :: (error + string) list"
  let ?end = "\<lparr>orders = DAList.update ''o1'' (widget_order OrderStatusPending)
      (DAList.update ''010203'' ((free_order OrderStatusPending)\<lparr>ID := ''010203''\<rparr>) DAList.empty)\<rparr>"
  have h1: "ID (widget_order OrderStatusPending) \<noteq> ''''"
    by (simp add: example_ids)
  have h2: "DAList.lookup (orders (store_of [widget_order OrderStatusCharged]))
      (ID (widget_order OrderStatusPending)) = Some (widget_order OrderStatusCharged)"
    using lookup_store_of_single [of "widget_order OrderStatusCharged"] by (simp add: example_ids)
  note c1 = InsertOrder_unique_ids [THEN conjunct1, THEN mp, OF conjI [OF h1 h2]]
  have h3: "ID ((free_order OrderStatusPending)\<lparr>ID := ''''\<rparr>) = ''''"
    by simp
  have h4: "DAList.lookup (orders NewMemory) (hex_EncodeToString [1, 2, 3]) = None"
    by (simp add: NewMemory_def)
  note c4 = InsertOrder_unique_ids [THEN conjunct2, THEN conjunct2, THEN conjunct2, THEN conjunct1,
      THEN mp, OF conjI [OF h3 h4]]
  have run: "InsertOrder_all ?cs NewMemory = (?rs, ?end)"
    by (simp add: MemoryInstance_InsertOrder_def NewMemory_def hex_010203 DAList.lookup_update
        example_ids)
  note c5 = InsertOrder_unique_ids [THEN conjunct2, THEN conjunct2, THEN conjunct2, THEN conjunct2,
      THEN mp, OF run]
  show ?thesis
    apply (intro conjI)
    subgoal by (rule h1)
    subgoal by (rule h2)
    subgoal by (rule c1)
    subgoal by (rule h3)
    subgoal by (rule h4)
    subgoal using c4 by (simp add: hex_010203)
    subgoal by (simp only: run fst_conv)
    subgoal using c5 by blast
    subgoal unfolding run by (simp add: DAList.lookup_update)
    done
qed

section \<open>Sequences of requests: only legal transitions\<close>

lemma middleware_memory:
  "orderFetchMiddleware \<lparr>stor = memory, chargeService = svc\<rparr> oid w = (r, w') \<Longrightarrow>
     stor_state w' = stor_state w \<and>
     (\<forall>order. r = Inr order \<longrightarrow> DAList.lookup (orders (stor_state w)) oid = Some order)"
  by (auto simp: orderFetchMiddleware_def stor_GetOrder_def memory_def MemoryInstance_GetOrder_def
      split: if_splits option.splits)

lemma stor_SetOrderStatus_memory:
  "stor_state (snd (stor_SetOrderStatus \<lparr>stor = memory, chargeService = svc\<rparr> oid status w)) =
     snd (MemoryInstance_SetOrderStatus oid status (stor_state w))"
  by (simp add: stor_SetOrderStatus_def memory_def split: prod.splits)

lemma chargeOrder_store:
  "chargeOrder \<lparr>stor = memory, chargeService = svc\<rparr> decoded order w = (resp, w') \<Longrightarrow>
     stor_state w' = stor_state w \<or>
     Status order = OrderStatusPending \<and>
     stor_state w' = snd (MemoryInstance_SetOrderStatus (ID order) OrderStatusCharged (stor_state w))"
proof -
  assume a: "chargeOrder \<lparr>stor = memory, chargeService = svc\<rparr> decoded order w = (resp, w')"
  let ?i = "\<lparr>stor = memory, chargeService = svc\<rparr>"
  show ?thesis
  proof (cases decoded)
    case (Inl err)
    with a show ?thesis by (auto simp: chargeOrder_def)
  next
    case (Inr args)
    obtain tok where tok: "args = chargeOrderArgs tok" by (cases args)
    show ?thesis
    proof (cases "Status order = OrderStatusPending")
      case False
      with a Inr tok show ?thesis by (auto simp: chargeOrder_def)
    next
      case True
      obtain r w1 where c: "innerChargeOrder ?i (chargeServiceChargeArgs tok (TotalCents order)) w = (r, w1)"
        by (cases "innerChargeOrder ?i (chargeServiceChargeArgs tok (TotalCents order)) w")
      from innerChargeOrder_world [OF c] have w1: "stor_state w1 = stor_state w" by simp
      show ?thesis
      proof (cases r)
        case (Some err)
        with a Inr tok True c w1 show ?thesis by (auto simp: chargeOrder_def)
      next
        case None
        with a Inr tok True c
        have "w' = snd (stor_SetOrderStatus ?i (ID order) OrderStatusCharged w1)"
          by (auto simp: chargeOrder_def split: prod.splits option.splits)
        then show ?thesis
          using True w1 by (simp add: stor_SetOrderStatus_memory)
      qed
    qed
  qed
qed

lemma cancelOrder_store:
  "cancelOrder \<lparr>stor = memory, chargeService = svc\<rparr> order w = (resp, w') \<Longrightarrow>
     stor_state w' = stor_state w \<or>
     (Status order = OrderStatusPending \<or> Status order = OrderStatusCharged) \<and>
     stor_state w' = snd (MemoryInstance_SetOrderStatus (ID order) OrderStatusCancelled (stor_state w))"
proof -
  assume a: "cancelOrder \<lparr>stor = memory, chargeService = svc\<rparr> order w = (resp, w')"
  let ?i = "\<lparr>stor = memory, chargeService = svc\<rparr>"
  consider (charged) "Status order = OrderStatusCharged"
    | (pending) "Status order = OrderStatusPending"
    | (other) "Status order \<noteq> OrderStatusPending" "Status order \<noteq> OrderStatusCharged"
    by blast
  then show ?thesis
  proof cases
    case charged
    obtain r w1 where c: "innerChargeOrder ?i (chargeServiceChargeArgs '''' (- TotalCents order)) w = (r, w1)"
      by (cases "innerChargeOrder ?i (chargeServiceChargeArgs '''' (- TotalCents order)) w")
    from innerChargeOrder_world [OF c] have w1: "stor_state w1 = stor_state w" by simp
    from a charged c w1 show ?thesis
      by (auto simp: cancelOrder_Charged memory_def split: option.splits prod.splits)
  next
    case pending
    with a show ?thesis
      by (auto simp: cancelOrder_Pending memory_def split: option.splits prod.splits)
  next
    case other
    with a show ?thesis by (simp add: cancelOrder_other)
  qed
qed

lemma postOrders_store:
  "postOrders \<lparr>stor = memory, chargeService = svc\<rparr> rnd decoded w = (resp, w') \<Longrightarrow>
     stor_state w' = stor_state w \<or>
     (\<exists>order. stor_state w' = snd (MemoryInstance_InsertOrder rnd order (stor_state w)))"
proof (cases decoded)
  case (Inl err)
  assume "postOrders \<lparr>stor = memory, chargeService = svc\<rparr> rnd decoded w = (resp, w')"
  with Inl show ?thesis by (auto simp: postOrders_def)
next
  case (Inr args)
  assume a: "postOrders \<lparr>stor = memory, chargeService = svc\<rparr> rnd decoded w = (resp, w')"
  obtain email items where args: "args = postOrderArgs email items" by (cases args)
  let ?order = "\<lparr>ID = '''', CustomerEmail = email, LineItems = items, Status = OrderStatusPending\<rparr>"
  from a Inr args have "stor_state w' = stor_state w \<or>
      stor_state w' = snd (MemoryInstance_InsertOrder rnd ?order (stor_state w))"
    by (auto simp: postOrders_def stor_InsertOrder_def memory_def Let_def
        split: sum.splits if_splits prod.splits)
  then show ?thesis by blast
qed

lemma getOrders_store:
  "getOrders \<lparr>stor = memory, chargeService = svc\<rparr> query w = (resp, w') \<Longrightarrow>
     stor_state w' = stor_state w"
  by (auto simp: getOrders_def stor_GetOrders_def memory_def MemoryInstance_GetOrders_def
      split: option.splits if_splits)

text \<open>What one request can do to a \<open>MemoryInstance\<close>: nothing, one insert, or one status write.\<close>

lemma ServeHTTP_store:
  assumes "ServeHTTP \<lparr>stor = memory, chargeService = svc\<rparr> req w = (resp, w')"
  shows "stor_state w' = stor_state w \<or>
     (\<exists>rnd order. stor_state w' = snd (MemoryInstance_InsertOrder rnd order (stor_state w))) \<or>
     (\<exists>oid order. DAList.lookup (orders (stor_state w)) oid = Some order \<and>
        Status order = OrderStatusPending \<and>
        stor_state w' = snd (MemoryInstance_SetOrderStatus (ID order) OrderStatusCharged (stor_state w))) \<or>
     (\<exists>oid order. DAList.lookup (orders (stor_state w)) oid = Some order \<and>
        (Status order = OrderStatusPending \<or> Status order = OrderStatusCharged) \<and>
        stor_state w' = snd (MemoryInstance_SetOrderStatus (ID order) OrderStatusCancelled (stor_state w)))"
proof (cases "route_id req")
  case None
  show ?thesis
  proof (cases req)
    case (GET_orders query)
    with assms have "getOrders \<lparr>stor = memory, chargeService = svc\<rparr> query w = (resp, w')"
      by (simp add: ServeHTTP_def)
    from getOrders_store [OF this] show ?thesis by simp
  next
    case (POST_orders rnd decoded)
    with assms have "postOrders \<lparr>stor = memory, chargeService = svc\<rparr> rnd decoded w = (resp, w')"
      by (simp add: ServeHTTP_def)
    from postOrders_store [OF this] show ?thesis by blast
  qed (use assms None in \<open>auto simp: ServeHTTP_def healthCheck_def\<close>)
next
  case (Some oid)
  let ?i = "\<lparr>stor = memory, chargeService = svc\<rparr>"
  obtain r w1 where m: "orderFetchMiddleware ?i oid w = (r, w1)"
    by (cases "orderFetchMiddleware ?i oid w")
  from middleware_memory [OF m] have w1: "stor_state w1 = stor_state w"
    and found: "\<And>order. r = Inr order \<Longrightarrow> DAList.lookup (orders (stor_state w)) oid = Some order"
    by simp_all
  show ?thesis
  proof (cases r)
    case (Inl early)
    with assms Some m w1 show ?thesis by (simp add: ServeHTTP_def)
  next
    case (Inr order)
    with assms Some m have h: "handler ?i req order w1 = (resp, w')"
      by (simp add: ServeHTTP_def)
    from found Inr have l: "DAList.lookup (orders (stor_state w)) oid = Some order"
      by simp
    show ?thesis
    proof (cases req)
      case (POST_charge x decoded)
      with h have "chargeOrder ?i decoded order w1 = (resp, w')" by simp
      from chargeOrder_store [OF this] l w1 show ?thesis by auto
    next
      case (POST_cancel x)
      with h have "cancelOrder ?i order w1 = (resp, w')" by simp
      from cancelOrder_store [OF this] l w1 show ?thesis by auto
    qed (use h w1 in \<open>auto simp: getOrder_def\<close>)
  qed
qed

text \<open>
  Every record is stored under its own id. \<open>InsertOrder\<close> and \<open>SetOrderStatus\<close> keep it
  so, and the handlers rely on it: they write the status under \<open>order.ID\<close> of the order
  that was fetched under the id of the URL.
\<close>

lemma insert_step:
  assumes keyed: "\<forall>k order. DAList.lookup (orders s) k = Some order \<longrightarrow> ID order = k"
    and s': "s' = snd (MemoryInstance_InsertOrder rnd order s)"
  shows "(\<forall>k order. DAList.lookup (orders s') k = Some order \<longrightarrow> ID order = k) \<and>
     (\<forall>k before. DAList.lookup (orders s) k = Some before \<longrightarrow> DAList.lookup (orders s') k = Some before)"
proof -
  obtain r where r: "MemoryInstance_InsertOrder rnd order s = (r, s')"
    using s' by (cases "MemoryInstance_InsertOrder rnd order s") simp
  show ?thesis
  proof (cases r)
    case (Inl err)
    with r have "s' = s" by (simp add: InsertOrder_Inl)
    with keyed show ?thesis by simp
  next
    case (Inr new)
    with r have new: "DAList.lookup (orders s) new = None"
      "DAList.lookup (orders s') new = Some (order\<lparr>ID := new\<rparr>)"
      "\<And>k. k \<noteq> new \<Longrightarrow> DAList.lookup (orders s') k = DAList.lookup (orders s) k"
      using InsertOrder_Inr by blast+
    have "DAList.lookup (orders s') k = Some v \<longrightarrow> ID v = k" for k v
      using keyed new(2) new(3) [of k] by (cases "k = new") auto
    moreover have "DAList.lookup (orders s) k = Some v \<longrightarrow> DAList.lookup (orders s') k = Some v" for k v
      using new(1) new(3) [of k] by (cases "k = new") auto
    ultimately show ?thesis by blast
  qed
qed

lemma set_status_step:
  assumes keyed: "\<forall>k order. DAList.lookup (orders s) k = Some order \<longrightarrow> ID order = k"
    and held: "DAList.lookup (orders s) oid = Some order"
    and s': "s' = snd (MemoryInstance_SetOrderStatus (ID order) status s)"
  shows "(\<forall>k order. DAList.lookup (orders s') k = Some order \<longrightarrow> ID order = k) \<and>
     (\<forall>k before. DAList.lookup (orders s) k = Some before \<longrightarrow>
        DAList.lookup (orders s') k = Some (if k = oid then before\<lparr>Status := status\<rparr> else before))"
proof -
  from keyed held have oid: "ID order = oid" by blast
  from held oid s' have l: "DAList.lookup (orders s') k =
      (if k = oid then Some (order\<lparr>Status := status\<rparr>) else DAList.lookup (orders s) k)" for k
    by (simp add: MemoryInstance_SetOrderStatus_def DAList.lookup_update)
  have "DAList.lookup (orders s') k = Some v \<longrightarrow> ID v = k" for k v
    using keyed oid by (auto simp: l)
  moreover have "DAList.lookup (orders s) k = Some v \<longrightarrow>
      DAList.lookup (orders s') k = Some (if k = oid then v\<lparr>Status := status\<rparr> else v)" for k v
    using held by (auto simp: l)
  ultimately show ?thesis by blast
qed

lemma ServeHTTP_step:
  assumes keyed: "\<forall>k order. DAList.lookup (orders (stor_state w)) k = Some order \<longrightarrow> ID order = k"
    and serve: "ServeHTTP \<lparr>stor = memory, chargeService = svc\<rparr> req w = (resp, w')"
  shows "(\<forall>k order. DAList.lookup (orders (stor_state w')) k = Some order \<longrightarrow> ID order = k) \<and>
     (\<forall>k before. DAList.lookup (orders (stor_state w)) k = Some before \<longrightarrow>
        (\<exists>status. DAList.lookup (orders (stor_state w')) k = Some (before\<lparr>Status := status\<rparr>) \<and>
           (status = Status before \<or>
            Status before = OrderStatusPending \<and> status = OrderStatusCharged \<or>
            Status before = OrderStatusPending \<and> status = OrderStatusCancelled \<or>
            Status before = OrderStatusCharged \<and> status = OrderStatusCancelled)))"
proof -
  let ?s = "stor_state w" and ?s' = "stor_state w'"
  have same: "before\<lparr>Status := Status before\<rparr> = before" for before :: Order
    by simp
  from ServeHTTP_store [OF serve]
  consider (unchanged) "?s' = ?s"
    | (inserted) rnd order where "?s' = snd (MemoryInstance_InsertOrder rnd order ?s)"
    | (charged) oid order where "DAList.lookup (orders ?s) oid = Some order"
        "Status order = OrderStatusPending"
        "?s' = snd (MemoryInstance_SetOrderStatus (ID order) OrderStatusCharged ?s)"
    | (cancelled) oid order where "DAList.lookup (orders ?s) oid = Some order"
        "Status order = OrderStatusPending \<or> Status order = OrderStatusCharged"
        "?s' = snd (MemoryInstance_SetOrderStatus (ID order) OrderStatusCancelled ?s)"
    by blast
  then show ?thesis
  proof cases
    case unchanged
    with keyed same show ?thesis by (metis (no_types))
  next
    case inserted
    from insert_step [OF keyed inserted] same show ?thesis by (metis (no_types))
  next
    case charged
    note st = set_status_step [OF keyed charged(1) charged(3)]
    have "\<exists>status. DAList.lookup (orders ?s') k = Some (before\<lparr>Status := status\<rparr>) \<and>
           (status = Status before \<or>
            Status before = OrderStatusPending \<and> status = OrderStatusCharged \<or>
            Status before = OrderStatusPending \<and> status = OrderStatusCancelled \<or>
            Status before = OrderStatusCharged \<and> status = OrderStatusCancelled)"
      if b: "DAList.lookup (orders ?s) k = Some before" for k before
    proof (cases "k = oid")
      case True
      with b charged(1) have "before = order" by simp
      with st b True charged(2) show ?thesis by auto
    next
      case False
      with st b have "DAList.lookup (orders ?s') k = Some (before\<lparr>Status := Status before\<rparr>)"
        by (simp add: same)
      then show ?thesis by blast
    qed
    with st show ?thesis by blast
  next
    case cancelled
    note st = set_status_step [OF keyed cancelled(1) cancelled(3)]
    have "\<exists>status. DAList.lookup (orders ?s') k = Some (before\<lparr>Status := status\<rparr>) \<and>
           (status = Status before \<or>
            Status before = OrderStatusPending \<and> status = OrderStatusCharged \<or>
            Status before = OrderStatusPending \<and> status = OrderStatusCancelled \<or>
            Status before = OrderStatusCharged \<and> status = OrderStatusCancelled)"
      if b: "DAList.lookup (orders ?s) k = Some before" for k before
    proof (cases "k = oid")
      case True
      with b cancelled(1) have "before = order" by simp
      with st b True cancelled(2) show ?thesis by auto
    next
      case False
      with st b have "DAList.lookup (orders ?s') k = Some (before\<lparr>Status := Status before\<rparr>)"
        by (simp add: same)
      then show ?thesis by blast
    qed
    with st show ?thesis by blast
  qed
qed

lemma serve_all_keyed:
  "\<forall>k order. DAList.lookup (orders (stor_state w)) k = Some order \<longrightarrow> ID order = k \<Longrightarrow>
   serve_all \<lparr>stor = memory, chargeService = svc\<rparr> reqs w = (resps, w') \<Longrightarrow>
   \<forall>k order. DAList.lookup (orders (stor_state w')) k = Some order \<longrightarrow> ID order = k"
proof (induction reqs arbitrary: w resps w')
  case Nil
  then show ?case by simp
next
  case (Cons req reqs)
  obtain resp w1 where first: "ServeHTTP \<lparr>stor = memory, chargeService = svc\<rparr> req w = (resp, w1)"
    by (cases "ServeHTTP \<lparr>stor = memory, chargeService = svc\<rparr> req w")
  obtain rest w2 where rest: "serve_all \<lparr>stor = memory, chargeService = svc\<rparr> reqs w1 = (rest, w2)"
    by (cases "serve_all \<lparr>stor = memory, chargeService = svc\<rparr> reqs w1")
  from Cons.prems(2) first rest have w': "w' = w2" by simp
  from ServeHTTP_step [OF Cons.prems(1) first]
  have "\<forall>k order. DAList.lookup (orders (stor_state w1)) k = Some order \<longrightarrow> ID order = k"
    by blast
  from Cons.IH [OF this rest] w' show ?case by simp
qed

lemma gateway_accepts_always:
  "innerChargeOrder \<lparr>stor = st, chargeService = gateway_accepts\<rparr> args w =
     (None, w\<lparr>charge_state := Suc (charge_state w), calls := calls w @ [CallCharge args]\<rparr>)"
  by (simp add: innerChargeOrder_def gateway_accepts_def StatusCreated_def)

lemma GetOrder_memory:
  "DAList.lookup (orders (stor_state w)) oid = Some order \<Longrightarrow> oid \<noteq> '''' \<Longrightarrow>
   orderFetchMiddleware \<lparr>stor = memory, chargeService = svc\<rparr> oid w =
     (Inr order, w\<lparr>calls := calls w @ [CallGetOrder oid]\<rparr>)"
  by (simp add: orderFetchMiddleware_def stor_GetOrder_def memory_def MemoryInstance_GetOrder_def)

text \<open>
  C4. Requests served one after the other, starting from the empty store, with any charge
  service: whatever request comes next, an order the store holds is still held afterwards
  with the same id, customer email and line items, and its status is either unchanged or
  has moved along \<open>Pending \<rightarrow> Charged\<close>, \<open>Pending \<rightarrow> Cancelled\<close> or \<open>Charged \<rightarrow>
  Cancelled\<close>. In particular the status of a \<open>Fulfilled\<close> or \<open>Cancelled\<close> order never
  changes.
\<close>

theorem legal_transitions_only:
  "stor_state w0 = NewMemory \<and>
   serve_all \<lparr>stor = memory, chargeService = svc\<rparr> reqs w0 = (resps, w) \<and>
   ServeHTTP \<lparr>stor = memory, chargeService = svc\<rparr> req w = (resp, w') \<and>
   DAList.lookup (orders (stor_state w)) oid = Some before \<longrightarrow>
     (\<exists>after. DAList.lookup (orders (stor_state w')) oid = Some after \<and>
        ID after = ID before \<and> CustomerEmail after = CustomerEmail before \<and>
        LineItems after = LineItems before \<and>
        (Status after = Status before \<or>
         Status before = OrderStatusPending \<and> Status after = OrderStatusCharged \<or>
         Status before = OrderStatusPending \<and> Status after = OrderStatusCancelled \<or>
         Status before = OrderStatusCharged \<and> Status after = OrderStatusCancelled) \<and>
        (Status before = OrderStatusFulfilled \<or> Status before = OrderStatusCancelled \<longrightarrow>
           Status after = Status before))"
proof (intro impI)
  assume a: "stor_state w0 = NewMemory \<and>
   serve_all \<lparr>stor = memory, chargeService = svc\<rparr> reqs w0 = (resps, w) \<and>
   ServeHTTP \<lparr>stor = memory, chargeService = svc\<rparr> req w = (resp, w') \<and>
   DAList.lookup (orders (stor_state w)) oid = Some before"
  then have "\<forall>k order. DAList.lookup (orders (stor_state w0)) k = Some order \<longrightarrow> ID order = k"
    by (simp add: NewMemory_def)
  with a have keyed: "\<forall>k order. DAList.lookup (orders (stor_state w)) k = Some order \<longrightarrow> ID order = k"
    using serve_all_keyed by blast
  from a ServeHTTP_step [OF keyed, of svc req resp w']
  obtain status where after: "DAList.lookup (orders (stor_state w')) oid = Some (before\<lparr>Status := status\<rparr>)"
    and legal: "status = Status before \<or>
            Status before = OrderStatusPending \<and> status = OrderStatusCharged \<or>
            Status before = OrderStatusPending \<and> status = OrderStatusCancelled \<or>
            Status before = OrderStatusCharged \<and> status = OrderStatusCancelled"
    by blast
  from legal have terminal: "Status before = OrderStatusFulfilled \<or> Status before = OrderStatusCancelled \<longrightarrow>
      status = Status before"
    by (auto simp: status_defs)
  show "\<exists>after. DAList.lookup (orders (stor_state w')) oid = Some after \<and>
        ID after = ID before \<and> CustomerEmail after = CustomerEmail before \<and>
        LineItems after = LineItems before \<and>
        (Status after = Status before \<or>
         Status before = OrderStatusPending \<and> Status after = OrderStatusCharged \<or>
         Status before = OrderStatusPending \<and> Status after = OrderStatusCancelled \<or>
         Status before = OrderStatusCharged \<and> Status after = OrderStatusCancelled) \<and>
        (Status before = OrderStatusFulfilled \<or> Status before = OrderStatusCancelled \<longrightarrow>
           Status after = Status before)"
    using after legal terminal by (intro exI [of _ "before\<lparr>Status := status\<rparr>"]) simp
qed

text \<open>
  The widget order is created and charged; the next request cancels it, and its status
  goes from \<open>Charged\<close> to \<open>Cancelled\<close>.
\<close>

theorem legal_transitions_only_witness:
  "stor_state (world_of NewMemory) = NewMemory \<and>
   fst (serve_all (api_of gateway_accepts)
     [POST_orders (Inr [1, 2, 3])
        (Inr (postOrderArgs ''ann@example.com'' (LineItems (widget_order OrderStatusPending)))),
      POST_charge ''010203'' (Inr (chargeOrderArgs ''tok''))] (world_of NewMemory)) =
     [(201, postOrderRes ((widget_order OrderStatusPending)\<lparr>ID := ''010203''\<rparr>)),
      (200, chargeOrderRes 2000)] \<and>
   DAList.lookup (orders (stor_state (snd (serve_all (api_of gateway_accepts)
     [POST_orders (Inr [1, 2, 3])
        (Inr (postOrderArgs ''ann@example.com'' (LineItems (widget_order OrderStatusPending)))),
      POST_charge ''010203'' (Inr (chargeOrderArgs ''tok''))] (world_of NewMemory))))) ''010203'' =
     Some ((widget_order OrderStatusCharged)\<lparr>ID := ''010203''\<rparr>) \<and>
   fst (ServeHTTP (api_of gateway_accepts) (POST_cancel ''010203'')
     (snd (serve_all (api_of gateway_accepts)
       [POST_orders (Inr [1, 2, 3])
          (Inr (postOrderArgs ''ann@example.com'' (LineItems (widget_order OrderStatusPending)))),
        POST_charge ''010203'' (Inr (chargeOrderArgs ''tok''))] (world_of NewMemory)))) =
     (200, cancelOrderRes ''order cancelled successfully'' ''010203'' 2000) \<and>
   DAList.lookup (orders (stor_state (snd (ServeHTTP (api_of gateway_accepts) (POST_cancel ''010203'')
     (snd (serve_all (api_of gateway_accepts)
       [POST_orders (Inr [1, 2, 3])
          (Inr (postOrderArgs ''ann@example.com'' (LineItems (widget_order OrderStatusPending)))),
        POST_charge ''010203'' (Inr (chargeOrderArgs ''tok''))] (world_of NewMemory))))))) ''010203'' =
     Some ((widget_order OrderStatusCancelled)\<lparr>ID := ''010203''\<rparr>)"
proof -
  let ?i = "api_of gateway_accepts"
  let ?create = "POST_orders (Inr [1, 2, 3])
      (Inr (postOrderArgs ''ann@example.com'' (LineItems (widget_order OrderStatusPending))))"
  let ?charge = "POST_charge ''010203'' (Inr (chargeOrderArgs ''tok''))"
  let ?cancel = "POST_cancel ''010203''"
  let ?o = "\<lambda>status. (widget_order status)\<lparr>ID := ''010203''\<rparr>"
  let ?w1 = "\<lparr>stor_state = store_of [?o OrderStatusPending], charge_state = 0::nat,
      calls = [CallInsertOrder ((widget_order OrderStatusPending)\<lparr>ID := ''''\<rparr>)]\<rparr>"
  let ?w2 = "\<lparr>stor_state = store_of [?o OrderStatusCharged], charge_state = 1::nat,
      calls = [CallInsertOrder ((widget_order OrderStatusPending)\<lparr>ID := ''''\<rparr>),
        CallGetOrder ''010203'', CallCharge (chargeServiceChargeArgs ''tok'' 2000),
        CallSetOrderStatus ''010203'' OrderStatusCharged]\<rparr>"
  have total: "TotalCents (?o status) = 2000" for status
    by (simp add: TotalCents_def widget_order_def)
  have create: "ServeHTTP ?i ?create (world_of NewMemory) =
      ((StatusCreated, postOrderRes (?o OrderStatusPending)), ?w1)"
    by (simp add: ServeHTTP_def postOrders_def stor_InsertOrder_def api_of_def memory_def
        MemoryInstance_InsertOrder_def hex_010203 world_of_def NewMemory_def widget_order_def
        TotalCents_def store_of_def word_sless_alt)
  have held1: "DAList.lookup (orders (stor_state ?w1)) ''010203'' = Some (?o OrderStatusPending)"
    by (simp add: store_of_def)
  have set1: "MemoryInstance_SetOrderStatus ''010203'' status (store_of [?o old]) =
      (None, store_of [?o status])" for status old
    by (simp add: MemoryInstance_SetOrderStatus_def store_of_def widget_order_def DAList.lookup_update)
  have charge: "ServeHTTP ?i ?charge ?w1 = ((StatusOK, chargeOrderRes 2000), ?w2)"
    using GetOrder_memory [OF held1, of gateway_accepts]
    by (simp add: ServeHTTP_def api_of_def chargeOrder_def example_status total
        gateway_accepts_always stor_SetOrderStatus_def memory_def set1)
  have run: "serve_all ?i [?create, ?charge] (world_of NewMemory) =
      ([(StatusCreated, postOrderRes (?o OrderStatusPending)), (StatusOK, chargeOrderRes 2000)], ?w2)"
    by (simp add: create charge)
  have held2: "DAList.lookup (orders (stor_state ?w2)) ''010203'' = Some (?o OrderStatusCharged)"
    by (simp add: store_of_def)
  have cancel: "ServeHTTP ?i ?cancel ?w2 =
      ((StatusOK, cancelOrderRes ''order cancelled successfully'' ''010203'' 2000),
       \<lparr>stor_state = store_of [?o OrderStatusCancelled], charge_state = 2::nat,
        calls = calls ?w2 @ [CallGetOrder ''010203'', CallCharge (chargeServiceChargeArgs '''' (- 2000)),
          CallSetOrderStatus ''010203'' OrderStatusCancelled]\<rparr>)"
    using GetOrder_memory [OF held2, of gateway_accepts]
    by (simp add: ServeHTTP_def api_of_def cancelOrder_Charged example_status total
        gateway_accepts_always memory_def set1 word_sless_alt)
  have start: "stor_state (world_of NewMemory) = NewMemory"
    by (simp add: world_of_def)
  from legal_transitions_only [THEN mp, OF conjI [OF start conjI [OF run [unfolded api_of_def]
      conjI [OF cancel [unfolded api_of_def] held2]]]]
  obtain after where after: "DAList.lookup (orders (stor_state
      \<lparr>stor_state = store_of [?o OrderStatusCancelled], charge_state = 2::nat,
        calls = calls ?w2 @ [CallGetOrder ''010203'', CallCharge (chargeServiceChargeArgs '''' (- 2000)),
          CallSetOrderStatus ''010203'' OrderStatusCancelled]\<rparr>)) ''010203'' = Some after"
    and legal: "Status after = Status (?o OrderStatusCharged) \<or>
         Status (?o OrderStatusCharged) = OrderStatusPending \<and> Status after = OrderStatusCharged \<or>
         Status (?o OrderStatusCharged) = OrderStatusPending \<and> Status after = OrderStatusCancelled \<or>
         Status (?o OrderStatusCharged) = OrderStatusCharged \<and> Status after = OrderStatusCancelled"
    by blast
  have held3: "DAList.lookup (orders (stor_state
      \<lparr>stor_state = store_of [?o OrderStatusCancelled], charge_state = 2::nat,
        calls = calls ?w2 @ [CallGetOrder ''010203'', CallCharge (chargeServiceChargeArgs '''' (- 2000)),
          CallSetOrderStatus ''010203'' OrderStatusCancelled]\<rparr>)) ''010203'' =
      Some (?o OrderStatusCancelled)"
    by (simp add: store_of_def)
  show ?thesis
    apply (intro conjI)
    subgoal by (rule start)
    subgoal unfolding run by (simp add: http_defs)
    subgoal unfolding run snd_conv by (rule held2)
    subgoal unfolding run snd_conv cancel by (simp add: http_defs)
    subgoal unfolding run snd_conv cancel using after held3 by simp
    done
qed

section \<open>Requests in parallel: two charges of one order\<close>

text \<open>A request that takes both its steps with nothing in between is served as \<open>ServeHTTP\<close> serves it.\<close>

lemma advance_twice:
  "advance i (fst (advance i (Arrived req) w)) (snd (advance i (Arrived req) w)) =
     (Responded (fst (ServeHTTP i req w)), snd (ServeHTTP i req w))"
  by (cases "route_id req")
    (auto simp: ServeHTTP_def split: prod.splits sum.splits)

lemma SetOrderStatus_single:
  "MemoryInstance_SetOrderStatus (ID order) status (store_of [order]) =
     (None, store_of [order\<lparr>Status := status\<rparr>])"
  by (simp add: MemoryInstance_SetOrderStatus_def store_of_def)

lemma widget_status_update: "(widget_order old)\<lparr>Status := status\<rparr> = widget_order status"
  by (simp add: widget_order_def)

text \<open>
  C1. Two charge requests for the same pending order, each with its own card token, and a
  charge service that accepts. When both middlewares have fetched the order before either
  handler runs, both handlers see \<open>Pending\<close>, both call the charge service and both
  answer 200: the customer is charged twice, and the second \<open>SetOrderStatus\<close> overwrites
  \<open>Charged\<close> with \<open>Charged\<close>. The handler does not read the store again: handed a
  \<open>Pending\<close> snapshot of an order the store already holds as \<open>Charged\<close>, it charges and
  answers 200.
\<close>

theorem concurrent_charges_both_succeed:
  "interleave (api_of gateway_accepts) [0, 1, 0, 1]
     [Arrived (POST_charge ''o1'' (Inr (chargeOrderArgs ''tok-a''))),
      Arrived (POST_charge ''o1'' (Inr (chargeOrderArgs ''tok-b'')))]
     (world_of (store_of [widget_order OrderStatusPending])) =
     ([Responded (StatusOK, chargeOrderRes 2000), Responded (StatusOK, chargeOrderRes 2000)],
      \<lparr>stor_state = store_of [widget_order OrderStatusCharged], charge_state = 2,
         calls = [CallGetOrder ''o1'', CallGetOrder ''o1'',
                  CallCharge (chargeServiceChargeArgs ''tok-a'' 2000),
                  CallSetOrderStatus ''o1'' OrderStatusCharged,
                  CallCharge (chargeServiceChargeArgs ''tok-b'' 2000),
                  CallSetOrderStatus ''o1'' OrderStatusCharged]\<rparr>) \<and>
   chargeOrder (api_of gateway_accepts) (Inr (chargeOrderArgs ''tok-b''))
     (widget_order OrderStatusPending) (world_of (store_of [widget_order OrderStatusCharged])) =
     ((StatusOK, chargeOrderRes 2000),
      \<lparr>stor_state = store_of [widget_order OrderStatusCharged], charge_state = 1,
         calls = [CallCharge (chargeServiceChargeArgs ''tok-b'' 2000),
                  CallSetOrderStatus ''o1'' OrderStatusCharged]\<rparr>)"
proof -
  let ?i = "api_of gateway_accepts"
  have held: "DAList.lookup (orders (stor_state w)) ''o1'' = Some (widget_order status)"
    if "stor_state w = store_of [widget_order status]" for w :: "(MemoryInstance, nat) world" and status
    using that lookup_store_of_single [of "widget_order status"] by (simp add: example_ids)
  have fetch: "orderFetchMiddleware ?i ''o1'' w = (Inr (widget_order status), w\<lparr>calls := calls w @ [CallGetOrder ''o1'']\<rparr>)"
    if "stor_state w = store_of [widget_order status]" for w :: "(MemoryInstance, nat) world" and status
    using GetOrder_memory [OF held [OF that], of gateway_accepts] by (simp add: api_of_def)
  have handle: "chargeOrder ?i (Inr (chargeOrderArgs tok)) (widget_order OrderStatusPending) w =
      ((StatusOK, chargeOrderRes 2000),
       w\<lparr>stor_state := store_of [widget_order OrderStatusCharged],
          charge_state := Suc (charge_state w),
          calls := calls w @ [CallCharge (chargeServiceChargeArgs tok 2000),
                              CallSetOrderStatus ''o1'' OrderStatusCharged]\<rparr>)"
    if "stor_state w = store_of [widget_order status]" for w :: "(MemoryInstance, nat) world" and status tok
    using that SetOrderStatus_single [of "widget_order status" OrderStatusCharged]
    by (simp add: chargeOrder_def api_of_def example_status example_ids total_widget
        gateway_accepts_always stor_SetOrderStatus_def memory_def widget_status_update)
  show ?thesis
    by (simp add: fetch handle world_of_def)
qed

text \<open>
  When the first request has answered before the second one starts, the second is refused
  with 409 \<open>order_not_eligible\<close>.
\<close>

lemma sequential_charges_one_succeeds:
  "fst (interleave (api_of gateway_accepts) [0, 0, 1, 1]
     [Arrived (POST_charge ''o1'' (Inr (chargeOrderArgs ''tok-a''))),
      Arrived (POST_charge ''o1'' (Inr (chargeOrderArgs ''tok-b'')))]
     (world_of (store_of [widget_order OrderStatusPending]))) =
     [Responded (StatusOK, chargeOrderRes 2000),
      Responded (StatusConflict, errorResponse ErrCodeOrderNotEligible ''order ineligible for charging'')]"
proof -
  let ?i = "api_of gateway_accepts"
  have held: "DAList.lookup (orders (stor_state w)) ''o1'' = Some (widget_order status)"
    if "stor_state w = store_of [widget_order status]" for w :: "(MemoryInstance, nat) world" and status
    using that lookup_store_of_single [of "widget_order status"] by (simp add: example_ids)
  have fetch: "orderFetchMiddleware ?i ''o1'' w = (Inr (widget_order status), w\<lparr>calls := calls w @ [CallGetOrder ''o1'']\<rparr>)"
    if "stor_state w = store_of [widget_order status]" for w :: "(MemoryInstance, nat) world" and status
    using GetOrder_memory [OF held [OF that], of gateway_accepts] by (simp add: api_of_def)
  have handle: "chargeOrder ?i (Inr (chargeOrderArgs tok)) (widget_order OrderStatusPending) w =
      ((StatusOK, chargeOrderRes 2000),
       w\<lparr>stor_state := store_of [widget_order OrderStatusCharged],
          charge_state := Suc (charge_state w),
          calls := calls w @ [CallCharge (chargeServiceChargeArgs tok 2000),
                              CallSetOrderStatus ''o1'' OrderStatusCharged]\<rparr>)"
    if "stor_state w = store_of [widget_order status]" for w :: "(MemoryInstance, nat) world" and status tok
    using that SetOrderStatus_single [of "widget_order status" OrderStatusCharged]
    by (simp add: chargeOrder_def api_of_def example_status example_ids total_widget
        gateway_accepts_always stor_SetOrderStatus_def memory_def widget_status_update)
  have refuse: "chargeOrder ?i (Inr (chargeOrderArgs tok)) (widget_order OrderStatusCharged) w =
      ((StatusConflict, errorResponse ErrCodeOrderNotEligible ''order ineligible for charging''), w)"
    for w :: "(MemoryInstance, nat) world" and tok
    by (simp add: chargeOrder_def example_status handleError_def status_defs)
  show ?thesis
    by (simp add: fetch handle refuse world_of_def)
qed

end
